theory Spec2Isabelle
  imports Complex_Main "HOL-Library.Product_Lexorder"
begin

section \<open>Numbers, series and frames\<close>

text \<open>
  The pipeline computes on pandas objects holding IEEE doubles.  A float is modelled as a
  \<open>cell\<close>: a finite number, idealised as an exact rational (\<open>Val\<close>), not-a-number
  (\<open>NaN\<close>), or one of the two infinities.  Rounding and the sign of zero are outside
  the model; the special values follow IEEE 754 (\<open>0/0\<close> and \<open>inf - inf\<close> are
  \<open>NaN\<close>, a non-zero number over zero is an infinity, \<open>NaN\<close> propagates).

  A Series is the list of its values in index order, a DataFrame the list of its rows
  (one row per period, one entry per column).  pandas aligns the operands of a binary
  operation on their labels; wherever two objects are combined positionally below, the
  source builds both over the same index (and columns), so alignment is the identity.
\<close>

datatype cell = Val rat | NaN | PInf | NInf

type_synonym series = "cell list"
type_synonym frame = "cell list list"

datatype error = ValueError string | IndexError | KeyError string | IndexingError | TypeError

fun cneg :: "cell \<Rightarrow> cell" where
  "cneg (Val x) = Val (- x)"
| "cneg NaN = NaN"
| "cneg PInf = NInf"
| "cneg NInf = PInf"

fun cadd :: "cell \<Rightarrow> cell \<Rightarrow> cell" where
  "cadd NaN _ = NaN"
| "cadd _ NaN = NaN"
| "cadd (Val x) (Val y) = Val (x + y)"
| "cadd PInf NInf = NaN"
| "cadd NInf PInf = NaN"
| "cadd PInf _ = PInf"
| "cadd _ PInf = PInf"
| "cadd NInf _ = NInf"
| "cadd _ NInf = NInf"

definition csub :: "cell \<Rightarrow> cell \<Rightarrow> cell" where
  "csub a b = cadd a (cneg b)"

text \<open>The sign of a cell that is not \<open>NaN\<close>: -1, 0 or 1.\<close>

fun csgn :: "cell \<Rightarrow> int" where
  "csgn (Val x) = (if x < 0 then - 1 else if x = 0 then 0 else 1)"
| "csgn PInf = 1"
| "csgn NInf = - 1"
| "csgn NaN = 0"

definition of_sign :: "int \<Rightarrow> cell" where
  "of_sign s = (if s = 0 then NaN else if 0 < s then PInf else NInf)"

fun cmul :: "cell \<Rightarrow> cell \<Rightarrow> cell" where
  "cmul NaN _ = NaN"
| "cmul _ NaN = NaN"
| "cmul (Val x) (Val y) = Val (x * y)"
| "cmul a b = of_sign (csgn a * csgn b)"

fun cabs :: "cell \<Rightarrow> cell" where
  "cabs (Val x) = Val \<bar>x\<bar>"
| "cabs NaN = NaN"
| "cabs PInf = PInf"
| "cabs NInf = PInf"

text \<open>
  True division of floats as numpy performs it (no exception): a finite non-zero number
  over zero is an infinity with the sign of the numerator, zero over zero is \<open>NaN\<close>,
  a finite number over an infinity is zero.
\<close>

fun cdiv :: "cell \<Rightarrow> cell \<Rightarrow> cell" where
  "cdiv NaN _ = NaN"
| "cdiv _ NaN = NaN"
| "cdiv (Val x) (Val y) = (if y = 0 then of_sign (csgn (Val x)) else Val (x / y))"
| "cdiv (Val x) _ = Val 0"
| "cdiv PInf (Val y) = (if y < 0 then NInf else PInf)"
| "cdiv NInf (Val y) = (if y < 0 then PInf else NInf)"
| "cdiv _ _ = NaN"

definition isna :: "cell \<Rightarrow> bool" where
  "isna c = (c = NaN)"

definition fillna :: "rat \<Rightarrow> cell \<Rightarrow> cell" where
  "fillna v c = (if isna c then Val v else c)"

text \<open>\<open>sum\<close> with the default \<open>skipna=True\<close>: missing values are left out of the sum.\<close>

definition sum_skipna :: "cell list \<Rightarrow> cell" where
  "sum_skipna cs = foldl cadd (Val 0) (filter (\<lambda>c. \<not> isna c) cs)"

section \<open>Turnover (stats_calculator.calculate_turnover)\<close>

text \<open>
  \<open>positions.diff()\<close>: the first row has no predecessor and is all \<open>NaN\<close>; every later
  row is the element-wise difference to the row before it.
\<close>

fun diff :: "frame \<Rightarrow> frame" where
  "diff [] = []"
| "diff (r # rs) = map (\<lambda>_. NaN) r # map2 (map2 csub) rs (r # rs)"

text \<open>
  \<^verbatim>\<open>turnover = positions.diff().abs().sum(axis=1)\<close>, then
  \<^verbatim>\<open>turnover.iloc[0] = positions.iloc[0].abs().sum()\<close>.  On a frame without rows
  \<open>positions.iloc[0]\<close> raises \<open>IndexError\<close>.
\<close>

definition calculate_turnover :: "frame \<Rightarrow> error + series" where
  "calculate_turnover positions =
     (let turnover = map (\<lambda>row. sum_skipna (map cabs row)) (diff positions)
      in case positions of
           [] \<Rightarrow> Inl IndexError
         | r0 # _ \<Rightarrow> Inr (turnover[0 := sum_skipna (map cabs r0)]))"

section \<open>The sector-momentum strategy (strategy/momentum_sector_LS.py)\<close>

subsection \<open>Parameters\<close>

text \<open>
  \<open>str.upper()\<close>.  A string is the list of the bytes of its UTF-8 encoding.  The ASCII
  letters \<open>a\<close> to \<open>z\<close> go to \<open>A\<close> to \<open>Z\<close>; the long s (U+017F, bytes C5 BF) goes to
  \<open>S\<close> and the sharp s (U+00DF, bytes C3 9F) to \<open>SS\<close>.  These two are the only
  characters outside ASCII whose upper case consists of the characters of the leg codes
  and frequency codes (A, L, S, D, W, M, 2).  Every other character outside ASCII is left
  as it is: Python maps it to a string that holds a character outside those seven, so the
  result is a key of the tables below neither in Python nor here.
\<close>

definition upper_char :: "char \<Rightarrow> char" where
  "upper_char c =
     (let n = (of_char c :: nat) in if 97 \<le> n \<and> n \<le> 122 then char_of (n - 32) else c)"

fun upper :: "string \<Rightarrow> string" where
  "upper [] = []"
| "upper [c] = [upper_char c]"
| "upper (c # d # cs) =
     (if c = CHR 0xC5 \<and> d = CHR 0xBF then CHR ''S'' # upper cs
      else if c = CHR 0xC3 \<and> d = CHR 0x9F then CHR ''S'' # CHR ''S'' # upper cs
      else upper_char c # upper (d # cs))"

declare upper.simps [simp del]

text \<open>
  The keyword arguments of \<open>set_parameters\<close>; \<open>None\<close> is an argument that was not
  passed.  A date is a day number (days since 1970-01-01), already parsed; parsing is
  \<open>pd.to_datetime\<close>'s business.
\<close>

record kwargs =
  kw_num_sectors :: "int option"
  kw_trading_frequency :: "string option"
  kw_start_date :: "int option"
  kw_end_date :: "int option"
  kw_invert_long :: "bool option"
  kw_invert_short :: "bool option"
  kw_legs :: "string option"

text \<open>The attributes \<open>set_parameters\<close> assigns.\<close>

record parameters =
  num_sectors :: int
  trading_frequency :: string
  start_date :: int
  end_date :: "int option"
  invert_long :: bool
  invert_short :: bool
  legs :: string

text \<open>The day number of 1980-01-01, the default start date.\<close>

definition date_1980_01_01 :: int where
  "date_1980_01_01 = 3652"

definition valid_legs :: "string list" where
  "valid_legs = [''L'', ''S'', ''LS'', ''ALL'']"

text \<open>
  \<open>kwargs.get(key, default)\<close> for each attribute; the only validation is that of the leg
  code, which raises \<open>ValueError\<close>.
\<close>

definition set_parameters :: "kwargs \<Rightarrow> error + parameters" where
  "set_parameters kw =
     (let self = \<lparr> num_sectors = (case kw_num_sectors kw of None \<Rightarrow> 5 | Some n \<Rightarrow> n),
                   trading_frequency =
                     upper (case kw_trading_frequency kw of None \<Rightarrow> ''M'' | Some f \<Rightarrow> f),
                   start_date = (case kw_start_date kw of None \<Rightarrow> date_1980_01_01 | Some d \<Rightarrow> d),
                   end_date = kw_end_date kw,
                   invert_long = (case kw_invert_long kw of None \<Rightarrow> False | Some b \<Rightarrow> b),
                   invert_short = (case kw_invert_short kw of None \<Rightarrow> False | Some b \<Rightarrow> b),
                   legs = upper (case kw_legs kw of None \<Rightarrow> ''ALL'' | Some l \<Rightarrow> l) \<rparr>
      in if legs self \<notin> set valid_legs
         then Inl (ValueError ''Invalid legs parameter.'')
         else Inr self)"

subsection \<open>The date window\<close>


definition loc_mask :: "bool list \<Rightarrow> 'a list \<Rightarrow> 'a list" where
  "loc_mask keep rows = map snd (filter fst (zip keep rows))"

subsection \<open>The momentum window\<close>

definition freq_to_periods :: "(string \<times> int) list" where
  "freq_to_periods = [(''D'', 252), (''W'', 52), (''2W'', 26), (''M'', 12)]"

text \<open>Python's \<open>int(x)\<close> on a float: truncation towards zero.\<close>

definition py_int :: "rat \<Rightarrow> int" where
  "py_int x = (if x < 0 then - \<lfloor>- x\<rfloor> else \<lfloor>x\<rfloor>)"

text \<open>
  \<open>_determine_window_size\<close>.  \<open>not periods_per_year\<close> holds for a missing key and for
  zero.  The product \<^verbatim>\<open>(11 / 12) * periods_per_year\<close> is taken exactly; on the four
  entries of the table the double-precision product truncates to the same integer.
\<close>

definition determine_window_size :: "parameters \<Rightarrow> error + int" where
  "determine_window_size self =
     (case map_of freq_to_periods (trading_frequency self) of
        None \<Rightarrow> Inl (ValueError ''Invalid trading frequency.'')
      | Some periods_per_year \<Rightarrow>
          if periods_per_year = 0 then Inl (ValueError ''Invalid trading frequency.'')
          else
            (let window_size = py_int ((11 / 12) * of_int periods_per_year)
             in Inr (if window_size < 1 then 1 else window_size)))"

subsection \<open>Momentum scores\<close>

text \<open>
  Column-wise operations.  A frame is rectangular: every row has \<open>ncols\<close> entries.
\<close>

definition ncols :: "'a list list \<Rightarrow> nat" where
  "ncols F = (case F of [] \<Rightarrow> 0 | r # _ \<Rightarrow> length r)"

definition col :: "nat \<Rightarrow> 'a list list \<Rightarrow> 'a list" where
  "col j F = map (\<lambda>row. row ! j) F"

definition by_column :: "(series \<Rightarrow> series) \<Rightarrow> frame \<Rightarrow> frame" where
  "by_column f F = map (\<lambda>t. map (\<lambda>j. f (col j F) ! t) [0..<ncols F]) [0..<length F]"

text \<open>\<open>shift(1)\<close>: every value moves one period later; the first period has none.\<close>

definition shift1 :: "series \<Rightarrow> series" where
  "shift1 xs = (case xs of [] \<Rightarrow> [] | _ # _ \<Rightarrow> NaN # butlast xs)"

definition isfinite :: "cell \<Rightarrow> bool" where
  "isfinite c = (case c of Val _ \<Rightarrow> True | _ \<Rightarrow> False)"

definition the_val :: "cell \<Rightarrow> rat" where
  "the_val c = (case c of Val x \<Rightarrow> x | _ \<Rightarrow> 0)"

text \<open>
  The mean of the observations of a window, with \<open>min_periods=1\<close>: \<open>NaN\<close> when the window
  holds no observation.  The rolling aggregations treat an infinity as missing.
\<close>

definition window_mean :: "cell list \<Rightarrow> cell" where
  "window_mean win =
     (let obs = map the_val (filter isfinite win)
      in if length obs < 1 then NaN else Val (sum_list obs / of_nat (length obs)))"

text \<open>
  \<^verbatim>\<open>rolling(window=w, min_periods=1).mean()\<close>: the window of period \<open>t\<close> is the \<open>w\<close>
  periods ending at \<open>t\<close>, cut off at the start of the series.
\<close>

definition rolling_mean :: "nat \<Rightarrow> series \<Rightarrow> series" where
  "rolling_mean w xs = map (\<lambda>t. window_mean (drop (t + 1 - w) (take (t + 1) xs))) [0..<length xs]"

text \<open>
  \<^verbatim>\<open>sector_avg_returns.shift(1).rolling(window=window_size-1, min_periods=1).mean()\<close>
\<close>

definition sector_return_momentum :: "int \<Rightarrow> frame \<Rightarrow> frame" where
  "sector_return_momentum window_size sector_avg_returns =
     by_column (\<lambda>xs. rolling_mean (nat (window_size - 1)) (shift1 xs)) sector_avg_returns"

subsection \<open>Selection of sectors\<close>

text \<open>
  The order of floats on cells that are not \<open>NaN\<close>, as a key: minus infinity, the finite
  numbers, plus infinity.  \<open>desc_key\<close> reverses it.
\<close>

definition asc_key :: "cell \<Rightarrow> int \<times> rat" where
  "asc_key c = (case c of NInf \<Rightarrow> (- 1, 0) | Val x \<Rightarrow> (0, x) | PInf \<Rightarrow> (1, 0) | NaN \<Rightarrow> (2, 0))"

definition desc_key :: "cell \<Rightarrow> int \<times> rat" where
  "desc_key c = (case asc_key c of (a, x) \<Rightarrow> (- a, - x))"

text \<open>
  \<open>momentum.dropna()\<close>: the sectors (column numbers) with a score, in column order, each
  with its score.
\<close>

definition dropna :: "cell list \<Rightarrow> (nat \<times> cell) list" where
  "dropna momentum = filter (\<lambda>(j, v). \<not> isna v) (zip [0..<length momentum] momentum)"

text \<open>
  \<open>nlargest(n)\<close> and \<open>nsmallest(n)\<close> with the default \<open>keep='first'\<close>: the first \<open>n\<close>
  entries in descending (ascending) order of score, entries of equal score in their
  original order; nothing for \<open>n \<le> 0\<close>, everything when \<open>n\<close> exceeds the length.
\<close>

definition nlargest :: "int \<Rightarrow> (nat \<times> cell) list \<Rightarrow> (nat \<times> cell) list" where
  "nlargest n s = (if n \<le> 0 then [] else take (nat n) (sort_key (\<lambda>(j, v). desc_key v) s))"

definition nsmallest :: "int \<Rightarrow> (nat \<times> cell) list \<Rightarrow> (nat \<times> cell) list" where
  "nsmallest n s = (if n \<le> 0 then [] else take (nat n) (sort_key (\<lambda>(j, v). asc_key v) s))"

text \<open>
  A row of a presence matrix that starts as zeros and is set to 1 at the given columns
  (\<^verbatim>\<open>presence.loc[date, sectors] = 1\<close>).
\<close>

definition mark :: "nat \<Rightarrow> nat list \<Rightarrow> int list" where
  "mark n sectors = map (\<lambda>j. if j \<in> set sectors then 1 else 0) [0..<n]"

text \<open>
  The body of the loop over \<open>sector_return_momentum.iterrows()\<close>, for one period: the
  rows of the top and of the bottom presence matrix.
\<close>

definition select_row :: "int \<Rightarrow> cell list \<Rightarrow> int list \<times> int list" where
  "select_row k momentum =
     (let valid_momentum = dropna momentum;
          num_available_sectors = int (length valid_momentum);
          num_selected_sectors = min k (num_available_sectors div 2)
      in if num_selected_sectors = 0
         then (mark (length momentum) [], mark (length momentum) [])
         else
           (let top_sectors = map fst (nlargest num_selected_sectors valid_momentum);
                bottom_sectors = map fst (nsmallest num_selected_sectors valid_momentum)
            in (mark (length momentum) top_sectors, mark (length momentum) bottom_sectors)))"

subsection \<open>Weights\<close>

text \<open>
  \<^verbatim>\<open>presence.div(presence.sum(axis=1), axis=0).fillna(0)\<close> on one row of an integer
  presence matrix: true division of each entry by the row sum, then \<open>NaN\<close> (zero over
  zero) replaced by zero.
\<close>

definition weight_row :: "int list \<Rightarrow> cell list" where
  "weight_row presence =
     map (\<lambda>x. fillna 0 (cdiv (Val (of_int x)) (Val (of_int (sum_list presence))))) presence"

definition long_weights :: "int list list \<Rightarrow> frame" where
  "long_weights top_presence_matrix = map weight_row top_presence_matrix"

definition short_weights :: "int list list \<Rightarrow> frame" where
  "short_weights bottom_presence_matrix = map (map cneg \<circ> weight_row) bottom_presence_matrix"

subsection \<open>generate_signals\<close>

text \<open>
  The positions a strategy stores: one frame, or, in mode \<open>ALL\<close>, a dictionary from leg
  label to frame (kept in insertion order).
\<close>

datatype positions = Single frame | PerLeg "(string \<times> frame) list"

text \<open>The frames held by stored positions, one per leg.\<close>

definition leg_frames :: "positions \<Rightarrow> frame list" where
  "leg_frames p = (case p of Single f \<Rightarrow> [f] | PerLeg d \<Rightarrow> map snd d)"

text \<open>The attributes \<open>generate_signals\<close> assigns.\<close>

record generated =
  positions :: positions
  asset_returns :: frame
  top_presence_matrix :: "int list list"
  bottom_presence_matrix :: "int list list"
  combined_presence_matrix :: "int list list"

text \<open>
  \<open>generate_signals\<close> from the sector-average returns on (the frame computed in line 73
  from the resampled, date-filtered and presence-masked asset returns): momentum scores,
  selection, weights, inversion, and the positions stored for the leg code.
\<close>

definition generate_signals :: "parameters \<Rightarrow> frame \<Rightarrow> error + generated" where
  "generate_signals self sector_avg_returns =
     (case determine_window_size self of
        Inl e \<Rightarrow> Inl e
      | Inr window_size \<Rightarrow>
          (let momentum = sector_return_momentum window_size sector_avg_returns;
               selected = map (select_row (num_sectors self)) momentum;
               top_presence = map fst selected;
               bottom_presence = map snd selected;
               long_positions = long_weights top_presence;
               short_positions = short_weights bottom_presence;
               long_positions =
                 (if invert_long self then map (map cneg) long_positions else long_positions);
               short_positions =
                 (if invert_short self then map (map cneg) short_positions else short_positions);
               combined_positions = map2 (map2 cadd) long_positions short_positions;
               attrs = (\<lambda>pos. \<lparr> positions = pos,
                                asset_returns = sector_avg_returns,
                                top_presence_matrix = top_presence,
                                bottom_presence_matrix = bottom_presence,
                                combined_presence_matrix =
                                  map2 (map2 (\<lambda>a b. min (a + b) 1)) top_presence bottom_presence \<rparr>)
           in if legs self = ''L'' then Inr (attrs (Single long_positions))
              else if legs self = ''S'' then Inr (attrs (Single short_positions))
              else if legs self = ''LS'' then Inr (attrs (Single combined_positions))
              else if legs self = ''ALL'' then
                Inr (attrs (PerLeg [(''Long'', long_positions), (''Short'', short_positions),
                                    (''Combined'', combined_positions)]))
              else Inl (ValueError ''Invalid legs parameter.'')))"

section \<open>Transaction costs and the orchestrator (backtest.py)\<close>

record config =
  transaction_cost_bps :: rat

text \<open>An entry of the Results Collection: the dictionary stored under one label.\<close>

record result_entry =
  entry_returns :: series
  entry_turnover :: series
  entry_trading_frequency :: string

text \<open>
  \<^verbatim>\<open>transaction_costs = turnover * (config.transaction_cost_bps / 10000)\<close>,
  \<^verbatim>\<open>adjusted_returns = returns - transaction_costs\<close>.
  The two series are given over one index, as the orchestrator and the benchmark build
  them (returns and turnover of the same periods), so the subtraction pairs the values by
  position.  Series over different indexes, which pandas would align on their labels with
  \<open>NaN\<close> for an unmatched label, are not inputs of this definition.
\<close>

definition adjust_returns_for_transaction_costs :: "series \<Rightarrow> series \<Rightarrow> config \<Rightarrow> series" where
  "adjust_returns_for_transaction_costs returns turnover cfg =
     (let transaction_costs = map (\<lambda>t. cmul t (Val (transaction_cost_bps cfg / 10000))) turnover;
          adjusted_returns = map2 csub returns transaction_costs
      in adjusted_returns)"

text \<open>\<^verbatim>\<open>(asset_returns * positions).sum(axis=1)\<close>: the value of the book, period by period.\<close>

definition strategy_returns :: "frame \<Rightarrow> frame \<Rightarrow> series" where
  "strategy_returns asset_rets pos =
     map2 (\<lambda>a p. sum_skipna (map2 cmul a p)) asset_rets pos"

text \<open>
  What \<open>get_signals\<close> hands to the orchestrator: the dictionary with the keys
  \<open>asset_returns\<close>, \<open>trading_frequency\<close> and \<open>positions\<close>.
\<close>

record signals =
  sig_asset_returns :: frame
  sig_trading_frequency :: string
  sig_positions :: positions

text \<open>
  A strategy as the orchestrator sees it: its name, its configuration, the attributes
  assigned by \<open>set_parameters\<close> (of which the orchestrator reads \<open>legs\<close>), and the
  outcome of \<open>generate_signals()\<close> followed by \<open>get_signals()\<close>, which may raise.
\<close>

record strategy =
  name :: string
  config :: config
  parameters :: parameters
  run_signals :: "error + signals"

definition get_signals :: "parameters \<Rightarrow> generated \<Rightarrow> signals" where
  "get_signals self g =
     \<lparr> sig_asset_returns = asset_returns g,
       sig_trading_frequency = trading_frequency self,
       sig_positions = positions g \<rparr>"

text \<open>The momentum strategy over given sector-average returns, as a strategy object.\<close>

definition momentum_strategy :: "config \<Rightarrow> parameters \<Rightarrow> frame \<Rightarrow> strategy" where
  "momentum_strategy cfg self sector_avg_returns =
     \<lparr> name = ''Momentum Sector Long-Short Strategy'',
       config = cfg,
       parameters = self,
       run_signals =
         (case generate_signals self sector_avg_returns of
            Inl e \<Rightarrow> Inl e
          | Inr g \<Rightarrow> Inr (get_signals self g)) \<rparr>"

text \<open>One leg: turnover, valuation, cost adjustment, and the entry that is stored.\<close>

definition leg_entry :: "config \<Rightarrow> frame \<Rightarrow> string \<Rightarrow> frame \<Rightarrow> error + result_entry" where
  "leg_entry cfg asset_rets freq pos =
     (case calculate_turnover pos of
        Inl e \<Rightarrow> Inl e
      | Inr turnover \<Rightarrow>
          Inr \<lparr> entry_returns =
                  adjust_returns_for_transaction_costs (strategy_returns asset_rets pos) turnover cfg,
                entry_turnover = turnover,
                entry_trading_frequency = freq \<rparr>)"

text \<open>The key under which a leg is stored: \<^verbatim>\<open>f"{strategy.name} - {leg_name}"\<close>.\<close>

definition leg_key :: "string \<Rightarrow> string \<Rightarrow> string" where
  "leg_key strategy_name leg_name = strategy_name @ '' - '' @ leg_name"

text \<open>The loop over \<open>positions_dict.items()\<close>; the first leg that raises ends it.\<close>

fun all_legs ::
  "strategy \<Rightarrow> frame \<Rightarrow> string \<Rightarrow> (string \<times> frame) list
     \<Rightarrow> (string \<rightharpoonup> result_entry) \<Rightarrow> error + (string \<rightharpoonup> result_entry)" where
  "all_legs s asset_rets freq [] returns_data = Inr returns_data"
| "all_legs s asset_rets freq ((leg_name, pos) # rest) returns_data =
     (case leg_entry (config s) asset_rets freq pos of
        Inl e \<Rightarrow> Inl e
      | Inr entry \<Rightarrow>
          all_legs s asset_rets freq rest (returns_data(leg_key (name s) leg_name \<mapsto> entry)))"

text \<open>
  The dictionary \<^verbatim>\<open>{'L': 'Long', 'S': 'Short', 'LS': 'Combined'}\<close>; indexing it with any
  other leg code raises \<open>KeyError\<close>.
\<close>

definition leg_names :: "(string \<times> string) list" where
  "leg_names = [(''L'', ''Long''), (''S'', ''Short''), (''LS'', ''Combined'')]"

text \<open>
  A strategy whose positions do not have the shape its leg code announces (a dictionary
  in mode \<open>ALL\<close>, one frame otherwise) is ill-typed; the source would stop with an
  attribute error, recorded here as \<open>TypeError\<close>.
\<close>

definition calculate_strategy_returns ::
  "strategy \<Rightarrow> signals \<Rightarrow> error + (string \<rightharpoonup> result_entry)" where
  "calculate_strategy_returns s sig =
     (if legs (parameters s) = ''ALL'' then
        (case sig_positions sig of
           PerLeg positions_dict \<Rightarrow>
             all_legs s (sig_asset_returns sig) (sig_trading_frequency sig) positions_dict Map.empty
         | Single _ \<Rightarrow> Inl TypeError)
      else
        (case sig_positions sig of
           Single pos \<Rightarrow>
             (case leg_entry (config s) (sig_asset_returns sig) (sig_trading_frequency sig) pos of
                Inl e \<Rightarrow> Inl e
              | Inr entry \<Rightarrow>
                  (case map_of leg_names (legs (parameters s)) of
                     None \<Rightarrow> Inl (KeyError (legs (parameters s)))
                   | Some leg_name \<Rightarrow> Inr (Map.empty(leg_key (name s) leg_name \<mapsto> entry))))
         | PerLeg _ \<Rightarrow> Inl TypeError))"

text \<open>An entry stored for a leg is the cost-adjusted valuation of that leg's positions.\<close>

definition leg_adjusted :: "strategy \<Rightarrow> frame \<Rightarrow> frame \<Rightarrow> result_entry \<Rightarrow> bool" where
  "leg_adjusted s asset_rets pos e \<longleftrightarrow>
     calculate_turnover pos = Inr (entry_turnover e)
     \<and> entry_returns e = adjust_returns_for_transaction_costs
           (strategy_returns asset_rets pos) (entry_turnover e) (config s)"

section \<open>The benchmark (benchmark.py)\<close>

text \<open>The attributes of the benchmark object that \<open>calculate_returns\<close> assigns and the
  orchestrator reads.\<close>

record benchmark =
  bm_returns :: series
  bm_turnover :: series
  bm_trading_frequency :: string

text \<open>
  \<^verbatim>\<open>weights = presence_shifted.div(presence_shifted.sum(axis=1), axis=0)\<close>: every entry
  over the sum of its row.
\<close>

definition benchmark_weights :: "frame \<Rightarrow> frame" where
  "benchmark_weights presence_shifted =
     map (\<lambda>row. map (\<lambda>x. cdiv x (sum_skipna row)) row) presence_shifted"

text \<open>
  \<open>Benchmark.calculate_returns\<close> from the masked asset returns on (the frame
  \<^verbatim>\<open>returns.multiply(presence_shifted)\<close>, with the lagged presence it was masked by):
  weights, turnover (the first entry from the first row of weights, which raises
  \<open>IndexError\<close> when there is no row), portfolio returns, \<open>NaN\<close> filled with zero, and
  the cost adjustment.
\<close>

definition calculate_returns :: "config \<Rightarrow> string \<Rightarrow> frame \<Rightarrow> frame \<Rightarrow> error + benchmark" where
  "calculate_returns cfg trading_freq returns presence_shifted =
     (let weights = benchmark_weights presence_shifted;
          turnover = map (\<lambda>row. sum_skipna (map cabs row)) (diff weights)
      in case weights of
           [] \<Rightarrow> Inl IndexError
         | w0 # _ \<Rightarrow>
             (let turnover = turnover[0 := sum_skipna (map cabs w0)];
                  portfolio_returns = strategy_returns returns weights;
                  self_returns = map (fillna 0) portfolio_returns;
                  self_turnover = map (fillna 0) turnover;
                  transaction_costs =
                    map (\<lambda>t. cmul t (Val (transaction_cost_bps cfg / 10000))) self_turnover;
                  self_returns = map2 csub self_returns transaction_costs
              in Inr \<lparr> bm_returns = self_returns,
                       bm_turnover = self_turnover,
                       bm_trading_frequency = upper trading_freq \<rparr>))"

section \<open>The orchestrator loop (Backtest.run_backtest)\<close>

text \<open>
  \<open>run_backtest\<close> mutates \<open>self.returns_dict\<close>; the model passes the dictionary along.
  An exception raised by a strategy leaves the loop; the dictionary keeps what was stored
  before, so the result is the dictionary together with the error, if any.
\<close>

fun run_strategies ::
  "strategy list \<Rightarrow> (string \<rightharpoonup> result_entry) \<Rightarrow> error option \<times> (string \<rightharpoonup> result_entry)" where
  "run_strategies [] returns_dict = (None, returns_dict)"
| "run_strategies (s # rest) returns_dict =
     (case run_signals s of
        Inl e \<Rightarrow> (Some e, returns_dict)
      | Inr sig \<Rightarrow>
          (case calculate_strategy_returns s sig of
             Inl e \<Rightarrow> (Some e, returns_dict)
           | Inr returns_data \<Rightarrow> run_strategies rest (returns_dict ++ returns_data)))"

definition run_backtest ::
  "strategy list \<Rightarrow> benchmark \<Rightarrow> (string \<rightharpoonup> result_entry)
     \<Rightarrow> error option \<times> (string \<rightharpoonup> result_entry)" where
  "run_backtest strategies bm returns_dict =
     run_strategies strategies
       (returns_dict(''Benchmark'' \<mapsto>
          \<lparr> entry_returns = bm_returns bm,
            entry_turnover = bm_turnover bm,
            entry_trading_frequency = bm_trading_frequency bm \<rparr>))"

section \<open>Statistics (stats_calculator.calculate_statistics)\<close>

text \<open>
  The return series carries its period labels, since the activity mask is looked up by
  label: a list of (label, value) in index order.  The turnover series of an entry is
  built over the same index as its returns, so it is given by its values alone and a
  boolean mask over the returns' index applies to it position by position.  A presence
  matrix or series has a unique index and is a map from label to row (to value);
  \<open>reindex\<close> looks every label of the returns up in it and yields \<open>NaN\<close> where the label
  is missing.
\<close>

type_synonym lseries = "(int \<times> cell) list"

datatype presence = PFrame nat "int \<rightharpoonup> cell list" | PSeries "int \<rightharpoonup> cell"

definition reindex_frame :: "nat \<Rightarrow> (int \<rightharpoonup> cell list) \<Rightarrow> int list \<Rightarrow> cell list list" where
  "reindex_frame n rows index =
     map (\<lambda>l. case rows l of Some row \<Rightarrow> row | None \<Rightarrow> replicate n NaN) index"

definition reindex_series :: "(int \<rightharpoonup> cell) \<Rightarrow> int list \<Rightarrow> cell list" where
  "reindex_series vals index = map (\<lambda>l. case vals l of Some v \<Rightarrow> v | None \<Rightarrow> NaN) index"

text \<open>The comparison \<open>x > 0\<close> on floats; it is false for \<open>NaN\<close>.\<close>

definition cgt0 :: "cell \<Rightarrow> bool" where
  "cgt0 c = (case c of Val x \<Rightarrow> 0 < x | PInf \<Rightarrow> True | _ \<Rightarrow> False)"

text \<open>
  \<^verbatim>\<open>presence.sum(axis=1) > 0\<close> for a DataFrame, \<^verbatim>\<open>presence > 0\<close> for a Series, after
  \<^verbatim>\<open>presence.reindex(returns.index)\<close>.
\<close>

definition active_periods :: "presence \<Rightarrow> int list \<Rightarrow> bool list" where
  "active_periods presence index =
     (case presence of
        PFrame n rows \<Rightarrow> map (\<lambda>row. cgt0 (sum_skipna row)) (reindex_frame n rows index)
      | PSeries vals \<Rightarrow> map cgt0 (reindex_series vals index))"

text \<open>
  The first block of \<open>calculate_statistics\<close>: with a presence, returns and turnover are
  restricted to the active periods (\<^verbatim>\<open>returns[active_periods]\<close>).
\<close>

definition restrict_active ::
  "lseries \<Rightarrow> cell list option \<Rightarrow> presence option \<Rightarrow> lseries \<times> cell list option" where
  "restrict_active returns turnover presence =
     (case presence of
        None \<Rightarrow> (returns, turnover)
      | Some p \<Rightarrow>
          (let active = active_periods p (map fst returns)
           in (loc_mask active returns, map_option (loc_mask active) turnover)))"

text \<open>
  The numerical library functions whose value is not rational arithmetic are parameters
  of the model: the power \<open>x ** y\<close> and \<open>np.sqrt\<close> on floats, \<open>Series.std\<close> and
  \<open>scipy.stats.skew\<close>.
\<close>

record numlib =
  np_power :: "cell \<Rightarrow> cell \<Rightarrow> cell"
  np_sqrt :: "cell \<Rightarrow> cell"
  series_std :: "cell list \<Rightarrow> cell"
  scipy_skew :: "cell list \<Rightarrow> cell"

definition freq_map :: "(string \<times> int) list" where
  "freq_map = [(''D'', 252), (''W'', 52), (''2W'', 26), (''M'', 12)]"

text \<open>\<open>prod\<close>, \<open>mean\<close> and \<open>min\<close> of a Series, all with \<open>skipna=True\<close>.\<close>

definition prod_skipna :: "cell list \<Rightarrow> cell" where
  "prod_skipna cs = foldl cmul (Val 1) (filter (\<lambda>c. \<not> isna c) cs)"

definition mean_skipna :: "cell list \<Rightarrow> cell" where
  "mean_skipna cs =
     (let obs = filter (\<lambda>c. \<not> isna c) cs
      in cdiv (foldl cadd (Val 0) obs) (Val (of_nat (length obs))))"

definition cmin :: "cell \<Rightarrow> cell \<Rightarrow> cell" where
  "cmin a b = (if asc_key a \<le> asc_key b then a else b)"

definition cmax :: "cell \<Rightarrow> cell \<Rightarrow> cell" where
  "cmax a b = (if asc_key a \<le> asc_key b then b else a)"

definition min_skipna :: "cell list \<Rightarrow> cell" where
  "min_skipna cs =
     (case filter (\<lambda>c. \<not> isna c) cs of [] \<Rightarrow> NaN | c # rest \<Rightarrow> foldl cmin c rest)"

text \<open>
  \<open>cumprod\<close> and \<open>cummax\<close>: a missing value stays missing in the output and is left out
  of the running product (maximum).
\<close>

fun cumprod :: "cell \<Rightarrow> cell list \<Rightarrow> cell list" where
  "cumprod acc [] = []"
| "cumprod acc (x # xs) =
     (if isna x then NaN # cumprod acc xs else cmul acc x # cumprod (cmul acc x) xs)"

fun cummax :: "cell option \<Rightarrow> cell list \<Rightarrow> cell list" where
  "cummax acc [] = []"
| "cummax acc (x # xs) =
     (if isna x then NaN # cummax acc xs
      else (let m = (case acc of None \<Rightarrow> x | Some a \<Rightarrow> cmax a x) in m # cummax (Some m) xs))"

text \<open>The quantities \<open>calculate_statistics\<close> computes, from the (restricted) values.\<close>

definition annualized_return :: "numlib \<Rightarrow> int \<Rightarrow> cell list \<Rightarrow> cell" where
  "annualized_return lib periods_per_year returns =
     (let total_return = prod_skipna (map (cadd (Val 1)) returns);
          num_periods = length returns;
          num_years = (of_nat num_periods :: rat) / of_int periods_per_year
      in if num_years = 0 then Val 0
         else csub (np_power lib total_return (Val (1 / num_years))) (Val 1))"

definition annualized_std :: "numlib \<Rightarrow> int \<Rightarrow> cell list \<Rightarrow> cell" where
  "annualized_std lib periods_per_year returns =
     cmul (series_std lib returns) (np_sqrt lib (Val (of_int periods_per_year)))"

definition sharpe_ratio :: "numlib \<Rightarrow> int \<Rightarrow> cell list \<Rightarrow> cell" where
  "sharpe_ratio lib periods_per_year returns =
     (if annualized_std lib periods_per_year returns \<noteq> Val 0
      then cdiv (annualized_return lib periods_per_year returns)
                (annualized_std lib periods_per_year returns)
      else NaN)"

definition max_drawdown :: "cell list \<Rightarrow> cell" where
  "max_drawdown returns =
     (let cumulative = cumprod (Val 1) (map (cadd (Val 1)) returns);
          peak = cummax None cumulative;
          drawdown = map2 (\<lambda>c p. cdiv (csub c p) p) cumulative peak
      in min_skipna drawdown)"

text \<open>
  \<open>calculate_statistics\<close>: the restriction to active periods, the lookup of
  \<open>periods_per_year\<close> under the upper-cased frequency (\<open>ValueError\<close> when it is missing),
  and the dictionary of statistics in insertion order.
\<close>

definition calculate_statistics ::
  "numlib \<Rightarrow> lseries \<Rightarrow> cell list option \<Rightarrow> string \<Rightarrow> presence option
     \<Rightarrow> error + (string \<times> cell) list" where
  "calculate_statistics lib returns turnover trading_freq presence =
     (case restrict_active returns turnover presence of
        (returns, turnover) \<Rightarrow>
          (case map_of freq_map (upper trading_freq) of
             None \<Rightarrow> Inl (ValueError ''Invalid trading frequency.'')
           | Some periods_per_year \<Rightarrow>
               if periods_per_year = 0 then Inl (ValueError ''Invalid trading frequency.'')
               else
                 Inr [(''Annualized Return (%)'',
                         cmul (annualized_return lib periods_per_year (map snd returns)) (Val 100)),
                      (''Annualized Sharpe Ratio'',
                         sharpe_ratio lib periods_per_year (map snd returns)),
                      (''Skewness'', scipy_skew lib (map snd returns)),
                      (''Max Drawdown (%)'', cmul (max_drawdown (map snd returns)) (Val 100)),
                      (''Average Turnover (%)'',
                         (case turnover of
                            Some t \<Rightarrow> cmul (mean_skipna t) (Val 100)
                          | None \<Rightarrow> NaN))]))"

section \<open>The spec's formulas, for comparison\<close>

text \<open>
  The window length in the spec's words: \<open>round((11/12) \<times> periods_per_year) - 1\<close>.
\<close>

definition spec_window_length :: "int \<Rightarrow> int" where
  "spec_window_length periods_per_year = round ((11 / 12 :: rat) * of_int periods_per_year) - 1"

section \<open>Properties\<close>

subsection \<open>Arithmetic on finite cells\<close>

lemma foldl_cadd_Val: "foldl cadd (Val a) (map Val xs) = Val (a + sum_list xs)"
  by (induction xs arbitrary: a) (simp_all add: add.assoc)

lemma sum_skipna_Val: "sum_skipna (map Val xs) = Val (sum_list xs)"
  by (simp add: sum_skipna_def isna_def foldl_cadd_Val)

lemma map_cabs_Val: "map cabs (map Val xs) = map Val (map abs xs)"
  by simp

lemma map2_csub_Val:
  "map2 csub (map Val xs) (map Val ys) = map Val (map2 (\<lambda>a b. a - b) xs ys)"
proof (induction xs arbitrary: ys)
  case Nil
  then show ?case by simp
next
  case (Cons x xs)
  then show ?case by (cases ys) (simp_all add: csub_def)
qed

subsection \<open>Turnover\<close>

lemma diff_nth:
  "0 < t \<Longrightarrow> t < length F \<Longrightarrow> diff F ! t = map2 csub (F ! t) (F ! (t - 1))"
  by (cases F) (auto simp: nth_Cons')

lemma length_diff: "length (diff F) = length F"
  by (cases F) auto

lemma abs_diff_Val:
  "map cabs (map2 csub (map Val xs) (map Val ys)) = map Val (map2 (\<lambda>a b. \<bar>a - b\<bar>) xs ys)"
proof (induction xs arbitrary: ys)
  case Nil
  then show ?case by simp
next
  case (Cons x xs)
  then show ?case by (cases ys) (simp_all add: csub_def)
qed

lemma row_turnover_Val:
  "sum_skipna (map cabs (map2 csub (map Val xs) (map Val ys)))
     = Val (sum_list (map2 (\<lambda>a b. \<bar>a - b\<bar>) xs ys))"
  by (simp only: abs_diff_Val sum_skipna_Val)

text \<open>
  Claim C2.  For a Position Matrix \<open>P\<close> of finite weights with at least one row,
  \<open>calculate_turnover\<close> returns a series with one value per row: at row 0 the sum of
  the absolute values of row 0, at every row \<open>t > 0\<close> the sum of the absolute
  element-wise differences between row \<open>t\<close> and row \<open>t - 1\<close>.  In particular the
  positions \<open>[[1,0],[0,1],[0,1]]\<close> give \<open>[1, 2, 0]\<close>.
\<close>

theorem calculate_turnover_rows:
  assumes "P \<noteq> []"
  shows "(\<exists>tu. calculate_turnover (map (map Val) P) = Inr tu \<and> length tu = length P
     \<and> tu ! 0 = Val (sum_list (map abs (P ! 0)))
     \<and> (\<forall>t. 0 < t \<and> t < length P \<longrightarrow>
           tu ! t = Val (sum_list (map2 (\<lambda>a b. \<bar>a - b\<bar>) (P ! t) (P ! (t - 1))))))
     \<and> calculate_turnover [[Val 1, Val 0], [Val 0, Val 1], [Val 0, Val 1]]
           = Inr [Val 1, Val 2, Val 0]"
proof -
  let ?F = "map (map Val) P"
  let ?tu = "(map (\<lambda>row. sum_skipna (map cabs row)) (diff ?F))
               [0 := sum_skipna (map cabs (?F ! 0))]"
  from assms obtain r rs where P: "P = r # rs" by (cases P) auto
  have res: "calculate_turnover ?F = Inr ?tu"
    by (simp add: calculate_turnover_def P)
  have len: "length ?tu = length P"
    by (simp add: length_diff)
  have first: "?tu ! 0 = Val (sum_list (map abs (P ! 0)))"
    using sum_skipna_Val [of "map abs r"] by (simp add: P comp_def)
  have later: "?tu ! t = Val (sum_list (map2 (\<lambda>a b. \<bar>a - b\<bar>) (P ! t) (P ! (t - 1))))"
    if "0 < t" "t < length P" for t
  proof -
    have "?tu ! t = sum_skipna (map cabs (diff ?F ! t))"
      using that by (simp add: length_diff)
    also have "diff ?F ! t = map2 csub (map Val (P ! t)) (map Val (P ! (t - 1)))"
      using that by (simp add: diff_nth)
    finally show ?thesis by (simp only: row_turnover_Val)
  qed
  have example: "calculate_turnover [[Val 1, Val 0], [Val 0, Val 1], [Val 0, Val 1]]
      = Inr [Val 1, Val 2, Val 0]"
    by (simp add: calculate_turnover_def sum_skipna_def isna_def csub_def)
  show ?thesis using res len first later example by blast
qed

theorem calculate_turnover_rows_witness:
  "calculate_turnover (map (map Val) [[1, 0], [0, 1], [0, 1]]) = Inr [Val 1, Val 2, Val 0]"
proof -
  have ne: "[[1, 0], [0, 1], [0, 1 :: rat]] \<noteq> []" by simp
  from calculate_turnover_rows [OF ne] obtain tu
    where res: "calculate_turnover (map (map Val) [[1, 0], [0, 1], [0, 1]]) = Inr tu"
      and len: "length tu = 3"
      and first: "tu ! 0 = Val 1"
      and later: "\<forall>t. 0 < t \<and> t < 3 \<longrightarrow>
           tu ! t = Val (sum_list (map2 (\<lambda>a b. \<bar>a - b\<bar>)
                           ([[1, 0], [0, 1], [0, 1 :: rat]] ! t)
                           ([[1, 0], [0, 1], [0, 1]] ! (t - 1))))"
    by auto
  from later [rule_format, of 1] have second: "tu ! 1 = Val 2" by simp
  from later [rule_format, of 2] have third: "tu ! 2 = Val 0" by simp
  from len obtain a b c where tu: "tu = [a, b, c]"
    by (auto simp: length_Suc_conv numeral_3_eq_3)
  from first second third show ?thesis unfolding res tu by simp
qed

subsection \<open>The momentum window\<close>

lemma freq_cases:
  "map_of freq_to_periods f = Some ppy \<Longrightarrow>
     (f = ''D'' \<and> ppy = 252) \<or> (f = ''W'' \<and> ppy = 52) \<or> (f = ''2W'' \<and> ppy = 26) \<or> (f = ''M'' \<and> ppy = 12)"
  by (auto simp: freq_to_periods_def split: if_splits)

lemma determine_window_size_valid:
  assumes "map_of freq_to_periods (trading_frequency self) = Some ppy"
  shows "determine_window_size self = Inr \<lfloor>(11 / 12 :: rat) * of_int ppy\<rfloor>"
  using freq_cases [OF assms] assms
  by (auto simp: determine_window_size_def py_int_def)

lemma by_column_nth:
  "t < length F \<Longrightarrow> j < ncols F \<Longrightarrow> by_column f F ! t ! j = f (col j F) ! t"
  by (simp add: by_column_def)

lemma length_shift1: "length (shift1 xs) = length xs"
  by (cases xs) (simp_all add: shift1_def)

lemma window_mean_NaN_Cons: "window_mean (NaN # win) = window_mean win"
  by (simp add: window_mean_def isfinite_def)

lemma shifted_window:
  assumes "t < length xs"
  shows "window_mean (drop (Suc t - w) (take (Suc t) (shift1 xs)))
           = window_mean (drop (t - w) (take t xs))"
proof -
  from assms obtain y ys where xs: "xs = y # ys" by (cases xs) auto
  have tk: "take (Suc t) (shift1 xs) = NaN # take t xs"
    using assms by (simp add: xs shift1_def take_butlast del: butlast.simps)
  show ?thesis
  proof (cases "Suc t \<le> w")
    case True
    then show ?thesis by (simp add: tk window_mean_NaN_Cons)
  next
    case False
    then have "Suc t - w = Suc (t - w)" by simp
    then show ?thesis by (simp add: tk)
  qed
qed

lemma drop_take_map_nth:
  "t \<le> length xs \<Longrightarrow> drop a (take t xs) = map (\<lambda>i. xs ! i) [a..<t]"
  by (rule nth_equalityI) auto

lemma momentum_nth:
  assumes "t < length F" "j < ncols F"
  shows "sector_return_momentum ws F ! t ! j
           = window_mean (map (\<lambda>i. F ! i ! j) [t - nat (ws - 1)..<t])"
proof -
  let ?w = "nat (ws - 1)"
  have len: "t < length (col j F)" using assms by (simp add: col_def)
  have "sector_return_momentum ws F ! t ! j = rolling_mean ?w (shift1 (col j F)) ! t"
    using assms by (simp add: sector_return_momentum_def by_column_nth)
  also have "\<dots> = window_mean (drop (Suc t - ?w) (take (Suc t) (shift1 (col j F))))"
    using len by (simp add: rolling_mean_def length_shift1)
  also have "\<dots> = window_mean (drop (t - ?w) (take t (col j F)))"
    by (rule shifted_window [OF len])
  also have "drop (t - ?w) (take t (col j F)) = map (\<lambda>i. col j F ! i) [t - ?w..<t]"
    using len by (simp add: drop_take_map_nth)
  also have "\<dots> = map (\<lambda>i. F ! i ! j) [t - ?w..<t]"
    using assms by (simp add: col_def)
  finally show ?thesis .
qed


text \<open>
  Claim C1, as the code has it.  For every valid trading frequency the window size is
  \<open>int((11/12) \<times> periods_per_year)\<close>, truncated, not rounded: the rolling window has
  length 10 for Monthly, 46 for Weekly, 22 for BiWeekly and 230 for Daily.  The momentum
  score of a sector at period \<open>t\<close> is the mean of the sector-average returns that are
  present among the periods \<open>t - window\<close> up to \<open>t - 1\<close> (not-a-number when there is
  none), so it never depends on the return of period \<open>t\<close> or of a later period.
\<close>

theorem sector_momentum_window:
  assumes "map_of freq_to_periods (trading_frequency self) = Some ppy"
  shows "\<exists>ws. determine_window_size self = Inr ws
      \<and> ws - 1 = \<lfloor>(11 / 12 :: rat) * of_int ppy\<rfloor> - 1
      \<and> (ppy = 12 \<longrightarrow> ws - 1 = 10) \<and> (ppy = 52 \<longrightarrow> ws - 1 = 46)
      \<and> (ppy = 26 \<longrightarrow> ws - 1 = 22) \<and> (ppy = 252 \<longrightarrow> ws - 1 = 230)
      \<and> (\<forall>F t j. t < length F \<and> j < ncols F \<longrightarrow>
            sector_return_momentum ws F ! t ! j
              = window_mean (map (\<lambda>i. F ! i ! j) [t - nat (ws - 1)..<t]))
      \<and> (\<forall>F F' t j. t < length F \<and> t < length F' \<and> j < ncols F \<and> j < ncols F'
              \<and> take t F' = take t F \<longrightarrow>
            sector_return_momentum ws F' ! t ! j = sector_return_momentum ws F ! t ! j)"
proof -
  let ?ws = "\<lfloor>(11 / 12 :: rat) * of_int ppy\<rfloor>"
  have ws: "determine_window_size self = Inr ?ws"
    by (rule determine_window_size_valid [OF assms])
  have vals: "(ppy = 12 \<longrightarrow> ?ws - 1 = 10) \<and> (ppy = 52 \<longrightarrow> ?ws - 1 = 46)
      \<and> (ppy = 26 \<longrightarrow> ?ws - 1 = 22) \<and> (ppy = 252 \<longrightarrow> ?ws - 1 = 230)"
    by (simp add: floor_eq_iff)
  have indep: "sector_return_momentum ?ws F' ! t ! j = sector_return_momentum ?ws F ! t ! j"
    if "t < length F" "t < length F'" "j < ncols F" "j < ncols F'" "take t F' = take t F"
    for F F' :: frame and t j
  proof -
    have "F' ! i = F ! i" if "i < t" for i
      using that \<open>take t F' = take t F\<close> by (metis nth_take)
    then have "map (\<lambda>i. F' ! i ! j) [t - nat (?ws - 1)..<t]
             = map (\<lambda>i. F ! i ! j) [t - nat (?ws - 1)..<t]"
      by simp
    then show ?thesis using that by (simp only: momentum_nth)
  qed
  show ?thesis
    using ws vals momentum_nth [of _ _ _ ?ws] indep by blast
qed

theorem sector_momentum_window_witness:
  "determine_window_size \<lparr> num_sectors = 5, trading_frequency = ''M'', start_date = 0,
       end_date = None, invert_long = False, invert_short = False, legs = ''ALL'' \<rparr> = Inr 11
   \<and> sector_return_momentum 11 [[Val 1], [Val 3], [Val 5]] ! 2 ! 0 = Val 2"
proof -
  let ?self = "\<lparr> num_sectors = 5, trading_frequency = ''M'', start_date = 0,
       end_date = None, invert_long = False, invert_short = False, legs = ''ALL'' \<rparr>"
  let ?F = "[[Val 1], [Val 3], [Val 5]]"
  have valid: "map_of freq_to_periods (trading_frequency ?self) = Some 12"
    by (simp add: freq_to_periods_def)
  from sector_momentum_window [OF valid] obtain ws
    where ws: "determine_window_size ?self = Inr ws" and w: "ws - 1 = 10"
      and mom: "\<forall>F t j. t < length F \<and> j < ncols F \<longrightarrow>
            sector_return_momentum ws F ! t ! j
              = window_mean (map (\<lambda>i. F ! i ! j) [t - nat (ws - 1)..<t])"
    by auto
  from w have ws11: "ws = 11" by simp
  have "sector_return_momentum ws ?F ! 2 ! 0
          = window_mean (map (\<lambda>i. ?F ! i ! 0) [2 - nat (ws - 1)..<2])"
    using mom [rule_format, of 2 ?F 0] by (simp add: ncols_def)
  also have "[2 - nat (ws - 1)..<2] = [0, 1]"
    by (simp add: ws11 upt_rec)
  also have "window_mean (map (\<lambda>i. ?F ! i ! 0) [0, 1]) = Val 2"
    by (simp add: window_mean_def isfinite_def the_val_def)
  finally show ?thesis using ws ws11 by simp
qed

text \<open>
  The claim as stated fails for Weekly: the spec's formula gives a window of 47, the
  code computes a window size of 47 and rolls over \<open>47 - 1 = 46\<close> periods.
\<close>

theorem weekly_window_counterexample:
  "determine_window_size \<lparr> num_sectors = 5, trading_frequency = ''W'', start_date = 0,
       end_date = None, invert_long = False, invert_short = False, legs = ''ALL'' \<rparr> = Inr 47
   \<and> spec_window_length 52 = 47 \<and> (47 :: int) - 1 \<noteq> spec_window_length 52"
  by (simp add: determine_window_size_def freq_to_periods_def py_int_def spec_window_length_def
      round_def floor_eq_iff)

subsection \<open>Equal weights within each side\<close>

lemma sum_list_01_zero:
  "set p \<subseteq> {0, 1 :: int} \<Longrightarrow> sum_list p = 0 \<Longrightarrow> x \<in> set p \<Longrightarrow> x = 0"
proof (induction p)
  case Nil
  then show ?case by simp
next
  case (Cons a p)
  have "0 \<le> sum_list p" using Cons.prems(1) by (intro sum_list_nonneg) auto
  with Cons show ?case by auto
qed

lemma sum_list_01_count:
  "set p \<subseteq> {0, 1 :: int} \<Longrightarrow> sum_list p = int (length (filter (\<lambda>x. x = 1) p))"
  by (induction p) auto

lemma weight_cell_01:
  assumes "set p \<subseteq> {0, 1 :: int}" "x \<in> set p"
  shows "fillna 0 (cdiv (Val (of_int x)) (Val (of_int (sum_list p))))
           = (if x = 1 then Val (1 / of_int (sum_list p)) else Val 0)"
proof (cases "sum_list p = 0")
  case True
  with assms have "x = 0" using sum_list_01_zero [of p x] by simp
  with True show ?thesis by (simp add: fillna_def isna_def of_sign_def)
next
  case False
  from assms have "x = 0 \<or> x = 1" by auto
  with False show ?thesis by (auto simp: fillna_def isna_def)
qed

lemma weight_row_nth:
  assumes "set p \<subseteq> {0, 1 :: int}" "j < length p"
  shows "weight_row p ! j = (if p ! j = 1 then Val (1 / of_int (sum_list p)) else Val 0)"
  using assms weight_cell_01 [OF assms(1), of "p ! j"] by (simp add: weight_row_def)

lemma weight_row_Val:
  assumes "set p \<subseteq> {0, 1 :: int}"
  shows "weight_row p = map Val (map (\<lambda>x. if x = 1 then 1 / of_int (sum_list p) else 0) p)"
  using weight_cell_01 [OF assms] by (simp add: weight_row_def)

lemma sum_list_uminus: "sum_list (map uminus xs) = - sum_list (xs :: rat list)"
  by (induction xs) auto

lemma sum_list_scaled_01:
  "set p \<subseteq> {0, 1 :: int} \<Longrightarrow>
     sum_list (map (\<lambda>x. if x = 1 then c else (0 :: rat)) p) = of_int (sum_list p) * c"
  by (induction p) (auto simp: algebra_simps)

lemma weight_row_sum:
  assumes "set p \<subseteq> {0, 1 :: int}" "0 < sum_list p"
  shows "sum_skipna (weight_row p) = Val 1"
proof -
  let ?ws = "map (\<lambda>x. if x = 1 then 1 / of_int (sum_list p) else (0::rat)) p"
  have "sum_skipna (weight_row p) = Val (sum_list ?ws)"
    by (simp only: weight_row_Val [OF assms(1)] sum_skipna_Val)
  also have "sum_list ?ws = 1"
    using assms by (simp add: sum_list_scaled_01)
  finally show ?thesis .
qed

lemma weight_row_zero:
  assumes "set p \<subseteq> {0, 1 :: int}" "sum_list p = 0"
  shows "weight_row p = replicate (length p) (Val 0)"
proof (rule nth_equalityI)
  show "length (weight_row p) = length (replicate (length p) (Val 0))"
    by (simp add: weight_row_def)
next
  fix j assume "j < length (weight_row p)"
  then have j: "j < length p" by (simp add: weight_row_def)
  then have "p ! j = 0" using sum_list_01_zero [OF assms] by simp
  with j show "weight_row p ! j = replicate (length p) (Val 0) ! j"
    by (simp add: weight_row_nth [OF assms(1)])
qed

lemma neg_weight_row_sum:
  assumes "set p \<subseteq> {0, 1 :: int}" "0 < sum_list p"
  shows "sum_skipna (map cneg (weight_row p)) = Val (- 1)"
proof -
  let ?ws = "map (\<lambda>x. if x = 1 then 1 / of_int (sum_list p) else (0::rat)) p"
  have "map cneg (weight_row p) = map Val (map uminus ?ws)"
    by (simp add: weight_row_Val [OF assms(1)])
  then have "sum_skipna (map cneg (weight_row p)) = Val (sum_list (map uminus ?ws))"
    by (simp only: sum_skipna_Val)
  also have "sum_list (map uminus ?ws) = - sum_list ?ws"
    by (rule sum_list_uminus)
  also have "sum_list ?ws = 1"
    using assms by (simp add: sum_list_scaled_01)
  finally show ?thesis .
qed

lemma mark_01: "set (mark n S) \<subseteq> {0, 1}"
  by (auto simp: mark_def)

lemma length_mark: "length (mark n S) = n"
  by (simp add: mark_def)

lemma select_row_01:
  "set (fst (select_row k m)) \<subseteq> {0, 1}" "set (snd (select_row k m)) \<subseteq> {0, 1}"
  by (simp_all add: select_row_def Let_def mark_01)

lemma select_row_length:
  "length (fst (select_row k m)) = length m" "length (snd (select_row k m)) = length m"
  by (simp_all add: select_row_def Let_def length_mark)


lemma neg_weight_row_nth:
  assumes "set p \<subseteq> {0, 1 :: int}" "j < length p"
  shows "map cneg (weight_row p) ! j
           = (if p ! j = 1 then Val (- 1 / of_int (sum_list p)) else Val 0)"
proof -
  have "map cneg (weight_row p) ! j = cneg (weight_row p ! j)"
    using assms(2) by (simp add: weight_row_def)
  then show ?thesis by (simp add: weight_row_nth [OF assms])
qed

lemma neg_weight_row_zero:
  assumes "set p \<subseteq> {0, 1 :: int}" "sum_list p = 0"
  shows "map cneg (weight_row p) = replicate (length p) (Val 0)"
  by (simp add: weight_row_zero [OF assms])

text \<open>
  Claim C4.  For every period \<open>t\<close> of the momentum strategy, with \<open>n\<close> the row sum of
  the presence matrix of a side (the number of sectors selected on that side): before
  inversion every selected sector has weight \<open>1/n\<close> on the long side and \<open>-1/n\<close> on the
  short side, every other sector has weight 0; for \<open>n > 0\<close> the long row sums to 1 and
  the short row to -1; for \<open>n = 0\<close> the row consists of exact zeros, not \<open>NaN\<close>.
\<close>

theorem equal_weights:
  fixes momentum :: frame
  assumes "t < length momentum"
    and "top_row = map fst (map (select_row k) momentum) ! t"
    and "bottom_row = map snd (map (select_row k) momentum) ! t"
    and "long_row = long_weights (map fst (map (select_row k) momentum)) ! t"
    and "short_row = short_weights (map snd (map (select_row k) momentum)) ! t"
  shows "sum_list top_row = int (length (filter (\<lambda>x. x = 1) top_row))
     \<and> (\<forall>j < length (momentum ! t).
           long_row ! j = (if top_row ! j = 1 then Val (1 / of_int (sum_list top_row)) else Val 0))
     \<and> (0 < sum_list top_row \<longrightarrow> sum_skipna long_row = Val 1)
     \<and> (sum_list top_row = 0 \<longrightarrow> long_row = replicate (length (momentum ! t)) (Val 0))
     \<and> sum_list bottom_row = int (length (filter (\<lambda>x. x = 1) bottom_row))
     \<and> (\<forall>j < length (momentum ! t).
           short_row ! j = (if bottom_row ! j = 1 then Val (- 1 / of_int (sum_list bottom_row)) else Val 0))
     \<and> (0 < sum_list bottom_row \<longrightarrow> sum_skipna short_row = Val (- 1))
     \<and> (sum_list bottom_row = 0 \<longrightarrow> short_row = replicate (length (momentum ! t)) (Val 0))"
proof -
  let ?m = "momentum ! t"
  have top_row: "top_row = fst (select_row k ?m)" and bottom_row: "bottom_row = snd (select_row k ?m)"
    using assms by simp_all
  have long_row: "long_row = weight_row top_row" and short_row: "short_row = map cneg (weight_row bottom_row)"
    using assms by (simp_all add: long_weights_def short_weights_def)
  have t01: "set top_row \<subseteq> {0, 1}" and b01: "set bottom_row \<subseteq> {0, 1}"
    by (simp_all add: top_row bottom_row select_row_01)
  have tl: "length top_row = length ?m" and bl: "length bottom_row = length ?m"
    by (simp_all add: top_row bottom_row select_row_length)
  show ?thesis
    unfolding long_row short_row
    using sum_list_01_count [OF t01] sum_list_01_count [OF b01]
      weight_row_nth [OF t01] neg_weight_row_nth [OF b01]
      weight_row_sum [OF t01] neg_weight_row_sum [OF b01]
      weight_row_zero [OF t01] neg_weight_row_zero [OF b01] tl bl
    by simp
qed

theorem equal_weights_witness:
  "sum_skipna (long_weights (map fst (map (select_row 1) [[Val 3, Val 1, NaN, Val 2]])) ! 0) = Val 1
   \<and> sum_skipna (short_weights (map snd (map (select_row 1) [[Val 3, Val 1, NaN, Val 2]])) ! 0)
        = Val (- 1)
   \<and> long_weights (map fst (map (select_row 1) [[Val 3, Val 1, NaN, Val 2]])) ! 0 ! 0 = Val 1
   \<and> short_weights (map snd (map (select_row 1) [[Val 3, Val 1, NaN, Val 2]])) ! 0 ! 1 = Val (- 1)"
proof -
  let ?M = "[[Val 3, Val 1, NaN, Val 2]]"
  have t: "0 < length ?M" by simp
  have top_row: "map fst (map (select_row 1) ?M) ! 0 = [1, 0, 0, 0]"
    by code_simp
  have bottom_row: "map snd (map (select_row 1) ?M) ! 0 = [0, 1, 0, 0]"
    by code_simp
  from equal_weights [OF t refl refl refl refl, of 1] show ?thesis
    unfolding top_row bottom_row by simp
qed

subsection \<open>Selection of sectors\<close>

lemma dropna_set:
  "set (dropna m) = {(j, v). j < length m \<and> v = m ! j \<and> \<not> isna v}"
proof -
  have "zip [0..<length m] m = map (\<lambda>j. (j, m ! j)) [0..<length m]"
    by (rule nth_equalityI) auto
  then show ?thesis by (auto simp: dropna_def)
qed

lemma dropna_distinct: "distinct (map fst (dropna m))"
proof -
  have "distinct (map fst (zip [0..<length m] m))" by simp
  then show ?thesis unfolding dropna_def by (rule distinct_map_filter)
qed

lemma desc_key_le: "desc_key a \<le> desc_key b \<longleftrightarrow> asc_key b \<le> asc_key a"
  by (cases "asc_key a"; cases "asc_key b") (auto simp: desc_key_def less_eq_prod_def)

text \<open>The first n entries of a list sorted by a key, against the rest.\<close>

lemma take_sort_key_le:
  assumes "x \<in> set (take n (sort_key f xs))" "y \<in> set xs" "y \<notin> set (take n (sort_key f xs))"
  shows "f x \<le> f y"
proof -
  let ?s = "sort_key f xs"
  have "y \<in> set ?s" using assms(2) by simp
  then have "y \<in> set (take n ?s) \<union> set (drop n ?s)"
    by (metis append_take_drop_id set_append)
  with assms(3) have y: "y \<in> set (drop n ?s)" by simp
  have "sorted (map f (take n ?s @ drop n ?s))" by simp
  then have "\<forall>a\<in>set (map f (take n ?s)). \<forall>b\<in>set (map f (drop n ?s)). a \<le> b"
    unfolding map_append sorted_append by blast
  with assms(1) y show ?thesis by auto
qed

lemma distinct_fst_sort_key:
  "distinct (map fst xs) \<Longrightarrow> distinct (map fst (sort_key f xs))"
  by (simp add: distinct_map)

lemma count_mark:
  assumes "distinct S" "set S \<subseteq> {..<n}"
  shows "length (filter (\<lambda>x. x = 1) (mark n S)) = length S"
proof -
  have "length (filter (\<lambda>x. x = 1) (mark n S)) = length (filter (\<lambda>j. j \<in> set S) [0..<n])"
    by (simp add: mark_def filter_map comp_def)
  also have "\<dots> = card {j \<in> set [0..<n]. j \<in> set S}"
    by (simp add: distinct_length_filter Int_def conj_commute)
  also have "{j \<in> set [0..<n]. j \<in> set S} = set S"
    using assms(2) by auto
  also have "card (set S) = length S"
    using assms(1) by (rule distinct_card)
  finally show ?thesis .
qed

lemma mark_nth: "j < n \<Longrightarrow> mark n S ! j = (if j \<in> set S then 1 else 0)"
  by (simp add: mark_def)

lemma mark_empty: "mark n [] = replicate n 0"
  by (simp add: mark_def map_replicate_const)


text \<open>The sectors picked by taking the first n of the scores sorted by a key.\<close>

lemma pick_props:
  fixes f :: "cell \<Rightarrow> int \<times> rat"
  assumes S: "S = map fst (take n (sort_key (\<lambda>(j, v). f v) (dropna m)))"
  shows "distinct S" "set S \<subseteq> {..<length m}" "length S = min n (length (dropna m))"
    "\<And>i. i \<in> set S \<Longrightarrow> \<not> isna (m ! i)"
    "\<And>i j. i \<in> set S \<Longrightarrow> j < length m \<Longrightarrow> j \<notin> set S \<Longrightarrow> \<not> isna (m ! j)
        \<Longrightarrow> f (m ! i) \<le> f (m ! j)"
proof -
  let ?s = "sort_key (\<lambda>(j, v). f v) (dropna m)"
  have d: "distinct (map fst ?s)"
    by (rule distinct_fst_sort_key [OF dropna_distinct])
  have "distinct (take n (map fst ?s))" using d by (rule distinct_take)
  then show "distinct S" by (simp add: S take_map)
  have mem: "(i, v) \<in> set (take n ?s) \<Longrightarrow> i < length m \<and> v = m ! i \<and> \<not> isna v" for i v
    using set_take_subset [of n ?s] by (auto simp: dropna_set)
  show "set S \<subseteq> {..<length m}" using mem by (auto simp: S)
  show "length S = min n (length (dropna m))" by (simp add: S min.commute)
  show "\<not> isna (m ! i)" if "i \<in> set S" for i
    using that mem by (auto simp: S)
  show "f (m ! i) \<le> f (m ! j)"
    if "i \<in> set S" "j < length m" "j \<notin> set S" "\<not> isna (m ! j)" for i j
  proof -
    from that(1) obtain v where iv: "(i, v) \<in> set (take n ?s)" by (auto simp: S)
    with mem have v: "v = m ! i" by blast
    have j1: "(j, m ! j) \<in> set (dropna m)" using that(2,4) by (simp add: dropna_set)
    have j2: "(j, m ! j) \<notin> set (take n ?s)"
      using that(3) by (force simp: S)
    from take_sort_key_le [OF iv j1 j2] show ?thesis by (simp add: v)
  qed
qed

lemma div2_le: "0 < n \<Longrightarrow> n \<le> int a div 2 \<Longrightarrow> min (nat n) a = nat n"
  by linarith

lemma select_row_spec:
  fixes m :: "cell list" and k :: int
  defines "n \<equiv> min k (int (length (dropna m)) div 2)"
  shows "length (filter (\<lambda>x. x = 1) (fst (select_row k m))) = nat n"
    and "length (filter (\<lambda>x. x = 1) (snd (select_row k m))) = nat n"
    and "\<And>i j. i < length m \<Longrightarrow> j < length m \<Longrightarrow> fst (select_row k m) ! i = 1
          \<Longrightarrow> fst (select_row k m) ! j \<noteq> 1 \<Longrightarrow> \<not> isna (m ! j)
          \<Longrightarrow> asc_key (m ! j) \<le> asc_key (m ! i)"
    and "\<And>i j. i < length m \<Longrightarrow> j < length m \<Longrightarrow> snd (select_row k m) ! i = 1
          \<Longrightarrow> snd (select_row k m) ! j \<noteq> 1 \<Longrightarrow> \<not> isna (m ! j)
          \<Longrightarrow> asc_key (m ! i) \<le> asc_key (m ! j)"
    and "\<And>i. i < length m \<Longrightarrow> fst (select_row k m) ! i = 1 \<or> snd (select_row k m) ! i = 1
          \<Longrightarrow> \<not> isna (m ! i)"
    and "n \<le> 0 \<Longrightarrow> fst (select_row k m) = replicate (length m) 0
                  \<and> snd (select_row k m) = replicate (length m) 0"
proof -
  let ?T = "map fst (take (nat n) (sort_key (\<lambda>(j, v). desc_key v) (dropna m)))"
  let ?B = "map fst (take (nat n) (sort_key (\<lambda>(j, v). asc_key v) (dropna m)))"
  have zero: "select_row k m = (replicate (length m) 0, replicate (length m) 0)" if "n \<le> 0"
    using that by (auto simp: select_row_def Let_def n_def nlargest_def nsmallest_def mark_empty)
  have pos: "select_row k m = (mark (length m) ?T, mark (length m) ?B)" if "0 < n"
    using that by (auto simp: select_row_def Let_def n_def nlargest_def nsmallest_def)
  have nle: "n \<le> int (length (dropna m)) div 2" by (simp add: n_def)
  note T = pick_props [where n = "nat n" and f = desc_key and m = m, OF refl]
  note B = pick_props [where n = "nat n" and f = asc_key and m = m, OF refl]
  show "length (filter (\<lambda>x. x = 1) (fst (select_row k m))) = nat n"
  proof (cases "0 < n")
    case True
    then show ?thesis
      using count_mark [OF T(1,2)] T(3) div2_le [OF True nle] by (simp add: pos)
  next
    case False
    then show ?thesis by (simp add: zero)
  qed
  show "length (filter (\<lambda>x. x = 1) (snd (select_row k m))) = nat n"
  proof (cases "0 < n")
    case True
    then show ?thesis
      using count_mark [OF B(1,2)] B(3) div2_le [OF True nle] by (simp add: pos)
  next
    case False
    then show ?thesis by (simp add: zero)
  qed
  show "asc_key (m ! j) \<le> asc_key (m ! i)"
    if "i < length m" "j < length m" "fst (select_row k m) ! i = 1"
      "fst (select_row k m) ! j \<noteq> 1" "\<not> isna (m ! j)" for i j
  proof (cases "0 < n")
    case True
    with that have "i \<in> set ?T" "j \<notin> set ?T"
      by (auto simp: pos mark_nth split: if_splits)
    from T(5) [OF this(1) that(2) this(2) that(5)] show ?thesis
      by (simp add: desc_key_le)
  next
    case False
    with that show ?thesis by (simp add: zero)
  qed
  show "asc_key (m ! i) \<le> asc_key (m ! j)"
    if "i < length m" "j < length m" "snd (select_row k m) ! i = 1"
      "snd (select_row k m) ! j \<noteq> 1" "\<not> isna (m ! j)" for i j
  proof (cases "0 < n")
    case True
    with that have "i \<in> set ?B" "j \<notin> set ?B"
      by (auto simp: pos mark_nth split: if_splits)
    from B(5) [OF this(1) that(2) this(2) that(5)] show ?thesis .
  next
    case False
    with that show ?thesis by (simp add: zero)
  qed
  show "\<not> isna (m ! i)"
    if "i < length m" "fst (select_row k m) ! i = 1 \<or> snd (select_row k m) ! i = 1" for i
  proof (cases "0 < n")
    case True
    with that have "i \<in> set ?T \<or> i \<in> set ?B"
      by (auto simp: pos mark_nth split: if_splits)
    with T(4) B(4) show ?thesis by blast
  next
    case False
    with that show ?thesis by (simp add: zero)
  qed
  show "fst (select_row k m) = replicate (length m) 0
      \<and> snd (select_row k m) = replicate (length m) 0" if "n \<le> 0"
    using that by (simp add: zero)
qed


lemma length_momentum: "length (sector_return_momentum ws F) = length F"
  by (simp add: sector_return_momentum_def by_column_def)

lemma length_momentum_row:
  "t < length F \<Longrightarrow> length (sector_return_momentum ws F ! t) = ncols F"
  by (simp add: sector_return_momentum_def by_column_def)

lemma weight_row_zeros: "weight_row (replicate c 0) = replicate c (Val 0)"
proof -
  have "set (replicate c (0 :: int)) \<subseteq> {0, 1}" by auto
  moreover have "sum_list (replicate c (0 :: int)) = 0" by (simp add: sum_list_replicate)
  ultimately show ?thesis using weight_row_zero [of "replicate c 0"] by simp
qed

lemma zero_leg_rows:
  assumes "t < length TP" "length BP = length TP"
    and "TP ! t = replicate c 0" "BP ! t = replicate c 0"
    and "L = (if il then map (map cneg) (long_weights TP) else long_weights TP)"
    and "S = (if is then map (map cneg) (short_weights BP) else short_weights BP)"
  shows "L ! t = replicate c (Val 0) \<and> S ! t = replicate c (Val 0)
    \<and> map2 (map2 cadd) L S ! t = replicate c (Val 0)"
proof -
  have l: "L ! t = replicate c (Val 0)"
    using assms by (simp add: long_weights_def weight_row_zeros)
  have s: "S ! t = replicate c (Val 0)"
    using assms by (simp add: short_weights_def weight_row_zeros)
  have len: "t < length L" "t < length S"
    using assms by (simp_all add: long_weights_def short_weights_def)
  have "map2 (map2 cadd) L S ! t = map2 cadd (L ! t) (S ! t)"
    using len by simp
  also have "\<dots> = replicate c (Val 0)"
    unfolding l s by (rule nth_equalityI) simp_all
  finally show ?thesis using l s by simp
qed

lemma generate_signals_result:
  assumes ws: "determine_window_size self = Inr ws" and lg: "legs self \<in> set valid_legs"
    and TP: "TP = map fst (map (select_row (num_sectors self)) (sector_return_momentum ws F))"
    and BP: "BP = map snd (map (select_row (num_sectors self)) (sector_return_momentum ws F))"
    and L: "L = (if invert_long self then map (map cneg) (long_weights TP) else long_weights TP)"
    and S: "S = (if invert_short self then map (map cneg) (short_weights BP) else short_weights BP)"
  shows "\<exists>g. generate_signals self F = Inr g \<and> top_presence_matrix g = TP
     \<and> bottom_presence_matrix g = BP \<and> asset_returns g = F
     \<and> set (leg_frames (positions g)) \<subseteq> {L, S, map2 (map2 cadd) L S}"
  using lg unfolding generate_signals_def ws TP BP L S
  by (auto simp: valid_legs_def leg_frames_def Let_def)


text \<open>
  Claim C5.  With a valid frequency and leg code \<open>generate_signals\<close> returns, and for
  every period \<open>t\<close>, with \<open>m\<close> the row of momentum scores and
  \<open>n = min(k, available // 2)\<close> over the sectors whose score is not missing: exactly
  \<open>n\<close> sectors are marked on the long side and \<open>n\<close> on the short side (none when
  \<open>n \<le> 0\<close>); only sectors with a score are marked; every sector marked long has a score
  at least as high as every available sector not marked long, every sector marked short a
  score at most as high as every available sector not marked short; and when \<open>n\<close> is
  0 no sector is marked and the row of every stored Position Matrix is exactly zero.
\<close>

theorem sector_selection:
  assumes "map_of freq_to_periods (trading_frequency self) = Some ppy"
    and "legs self \<in> set valid_legs"
  shows "\<exists>g ws. determine_window_size self = Inr ws \<and> generate_signals self F = Inr g
     \<and> (\<forall>t m n top_row bottom_row.
          t < length F \<and> m = sector_return_momentum ws F ! t
          \<and> n = min (num_sectors self) (int (length (dropna m)) div 2)
          \<and> top_row = top_presence_matrix g ! t \<and> bottom_row = bottom_presence_matrix g ! t
          \<longrightarrow>
            length (filter (\<lambda>x. x = 1) top_row) = nat n
          \<and> length (filter (\<lambda>x. x = 1) bottom_row) = nat n
          \<and> (\<forall>i j. i < length m \<and> j < length m \<and> top_row ! i = 1 \<and> top_row ! j \<noteq> 1
                 \<and> \<not> isna (m ! j) \<longrightarrow> asc_key (m ! j) \<le> asc_key (m ! i))
          \<and> (\<forall>i j. i < length m \<and> j < length m \<and> bottom_row ! i = 1 \<and> bottom_row ! j \<noteq> 1
                 \<and> \<not> isna (m ! j) \<longrightarrow> asc_key (m ! i) \<le> asc_key (m ! j))
          \<and> (\<forall>i. i < length m \<and> (top_row ! i = 1 \<or> bottom_row ! i = 1) \<longrightarrow> \<not> isna (m ! i))
          \<and> (n \<le> 0 \<longrightarrow> top_row = replicate (length m) 0 \<and> bottom_row = replicate (length m) 0
                \<and> (\<forall>P \<in> set (leg_frames (positions g)). P ! t = replicate (length m) (Val 0))))"
proof -
  let ?ws = "\<lfloor>(11 / 12 :: rat) * of_int ppy\<rfloor>"
  let ?k = "num_sectors self"
  define M where "M = sector_return_momentum ?ws F"
  define TP where "TP = map fst (map (select_row ?k) M)"
  define BP where "BP = map snd (map (select_row ?k) M)"
  define L where "L = (if invert_long self then map (map cneg) (long_weights TP) else long_weights TP)"
  define S where "S = (if invert_short self then map (map cneg) (short_weights BP) else short_weights BP)"
  have ws: "determine_window_size self = Inr ?ws"
    by (rule determine_window_size_valid [OF assms(1)])
  from generate_signals_result [OF ws assms(2) TP_def [unfolded M_def] BP_def [unfolded M_def]
      L_def S_def]
  obtain g
    where g: "generate_signals self F = Inr g"
      and tp: "top_presence_matrix g = TP" and bp: "bottom_presence_matrix g = BP"
      and legs: "set (leg_frames (positions g)) \<subseteq> {L, S, map2 (map2 cadd) L S}"
    by blast
  have per_period: "\<forall>t m n top_row bottom_row.
          t < length F \<and> m = sector_return_momentum ?ws F ! t
          \<and> n = min (num_sectors self) (int (length (dropna m)) div 2)
          \<and> top_row = top_presence_matrix g ! t \<and> bottom_row = bottom_presence_matrix g ! t
          \<longrightarrow>
            length (filter (\<lambda>x. x = 1) top_row) = nat n
          \<and> length (filter (\<lambda>x. x = 1) bottom_row) = nat n
          \<and> (\<forall>i j. i < length m \<and> j < length m \<and> top_row ! i = 1 \<and> top_row ! j \<noteq> 1
                 \<and> \<not> isna (m ! j) \<longrightarrow> asc_key (m ! j) \<le> asc_key (m ! i))
          \<and> (\<forall>i j. i < length m \<and> j < length m \<and> bottom_row ! i = 1 \<and> bottom_row ! j \<noteq> 1
                 \<and> \<not> isna (m ! j) \<longrightarrow> asc_key (m ! i) \<le> asc_key (m ! j))
          \<and> (\<forall>i. i < length m \<and> (top_row ! i = 1 \<or> bottom_row ! i = 1) \<longrightarrow> \<not> isna (m ! i))
          \<and> (n \<le> 0 \<longrightarrow> top_row = replicate (length m) 0 \<and> bottom_row = replicate (length m) 0
                \<and> (\<forall>P \<in> set (leg_frames (positions g)). P ! t = replicate (length m) (Val 0)))"
  proof (intro allI impI, elim conjE)
    fix t m n top_row bottom_row
    assume t: "t < length F" and m: "m = sector_return_momentum ?ws F ! t"
      and n: "n = min ?k (int (length (dropna m)) div 2)"
      and tr: "top_row = top_presence_matrix g ! t" and br: "bottom_row = bottom_presence_matrix g ! t"
    have tM: "t < length M" using t by (simp add: M_def length_momentum)
    have top: "top_row = fst (select_row ?k m)" and bot: "bottom_row = snd (select_row ?k m)"
      using tM by (simp_all add: tr br tp bp TP_def BP_def m M_def)
    note spec = select_row_spec [where k = ?k and m = m, folded n top bot]
    have zero: "\<forall>P \<in> set (leg_frames (positions g)). P ! t = replicate (length m) (Val 0)"
      if n0: "n \<le> 0"
    proof -
      from spec(6) [OF n0] have z: "TP ! t = replicate (length m) 0"
        "BP ! t = replicate (length m) 0"
        by (simp_all add: tr br tp bp)
      have len: "t < length TP" "length BP = length TP" using tM by (simp_all add: TP_def BP_def)
      note zr = zero_leg_rows [OF len z L_def S_def]
      show ?thesis
      proof
        fix P assume "P \<in> set (leg_frames (positions g))"
        with legs consider "P = L" | "P = S" | "P = map2 (map2 cadd) L S" by blast
        then show "P ! t = replicate (length m) (Val 0)"
          using zr by cases simp_all
      qed
    qed
    have c3: "\<forall>i j. i < length m \<and> j < length m \<and> top_row ! i = 1 \<and> top_row ! j \<noteq> 1
            \<and> \<not> isna (m ! j) \<longrightarrow> asc_key (m ! j) \<le> asc_key (m ! i)"
      using spec(3) by blast
    have c4: "\<forall>i j. i < length m \<and> j < length m \<and> bottom_row ! i = 1 \<and> bottom_row ! j \<noteq> 1
            \<and> \<not> isna (m ! j) \<longrightarrow> asc_key (m ! i) \<le> asc_key (m ! j)"
      using spec(4) by blast
    have c5: "\<forall>i. i < length m \<and> (top_row ! i = 1 \<or> bottom_row ! i = 1) \<longrightarrow> \<not> isna (m ! i)"
      using spec(5) by blast
    have c6: "n \<le> 0 \<longrightarrow> top_row = replicate (length m) 0 \<and> bottom_row = replicate (length m) 0
           \<and> (\<forall>P \<in> set (leg_frames (positions g)). P ! t = replicate (length m) (Val 0))"
      using spec(6) zero by blast
    from spec(1) spec(2) c3 c4 c5 c6
    show "length (filter (\<lambda>x. x = 1) top_row) = nat n
          \<and> length (filter (\<lambda>x. x = 1) bottom_row) = nat n
          \<and> (\<forall>i j. i < length m \<and> j < length m \<and> top_row ! i = 1 \<and> top_row ! j \<noteq> 1
                 \<and> \<not> isna (m ! j) \<longrightarrow> asc_key (m ! j) \<le> asc_key (m ! i))
          \<and> (\<forall>i j. i < length m \<and> j < length m \<and> bottom_row ! i = 1 \<and> bottom_row ! j \<noteq> 1
                 \<and> \<not> isna (m ! j) \<longrightarrow> asc_key (m ! i) \<le> asc_key (m ! j))
          \<and> (\<forall>i. i < length m \<and> (top_row ! i = 1 \<or> bottom_row ! i = 1) \<longrightarrow> \<not> isna (m ! i))
          \<and> (n \<le> 0 \<longrightarrow> top_row = replicate (length m) 0 \<and> bottom_row = replicate (length m) 0
                \<and> (\<forall>P \<in> set (leg_frames (positions g)). P ! t = replicate (length m) (Val 0)))"
      by (intro conjI)
  qed
  show ?thesis
    by (rule exI [of _ g], rule exI [of _ ?ws], intro conjI, rule ws, rule g, rule per_period)
qed


theorem sector_selection_witness:
  "\<exists>g. generate_signals \<lparr> num_sectors = 1, trading_frequency = ''M'', start_date = 0,
            end_date = None, invert_long = False, invert_short = False, legs = ''ALL'' \<rparr>
          [[Val 3, Val 1, NaN, Val 2], [Val 0, Val 0, Val 0, Val 0]] = Inr g
     \<and> length (filter (\<lambda>x. x = 1) (top_presence_matrix g ! 1)) = 1
     \<and> length (filter (\<lambda>x. x = 1) (bottom_presence_matrix g ! 1)) = 1
     \<and> (\<forall>P \<in> set (leg_frames (positions g)). P ! 0 = replicate 4 (Val 0))"
proof -
  let ?self = "\<lparr> num_sectors = 1, trading_frequency = ''M'', start_date = 0,
            end_date = None, invert_long = False, invert_short = False, legs = ''ALL'' \<rparr>"
  let ?F = "[[Val 3, Val 1, NaN, Val 2], [Val 0, Val 0, Val 0, Val 0]]"
  have valid: "map_of freq_to_periods (trading_frequency ?self) = Some 12"
    by (simp add: freq_to_periods_def)
  have legs: "legs ?self \<in> set valid_legs"
    by (simp add: valid_legs_def)
  have ws11: "determine_window_size ?self = Inr 11"
    by (simp add: determine_window_size_def freq_to_periods_def py_int_def)
  have m0: "sector_return_momentum 11 ?F ! 0 = [NaN, NaN, NaN, NaN]"
    by code_simp
  have m1: "sector_return_momentum 11 ?F ! 1 = [Val 3, Val 1, NaN, Val 2]"
    by code_simp
  have n0: "min (num_sectors ?self) (int (length (dropna [NaN, NaN, NaN, NaN])) div 2) = 0"
    by code_simp
  have n1: "min (num_sectors ?self) (int (length (dropna [Val 3, Val 1, NaN, Val 2])) div 2) = 1"
    by code_simp
  from sector_selection [OF valid legs, of ?F] obtain g ws
    where ws: "determine_window_size ?self = Inr ws"
      and g: "generate_signals ?self ?F = Inr g"
      and per: "\<forall>t m n top_row bottom_row.
          t < length ?F \<and> m = sector_return_momentum ws ?F ! t
          \<and> n = min (num_sectors ?self) (int (length (dropna m)) div 2)
          \<and> top_row = top_presence_matrix g ! t \<and> bottom_row = bottom_presence_matrix g ! t
          \<longrightarrow>
            length (filter (\<lambda>x. x = 1) top_row) = nat n
          \<and> length (filter (\<lambda>x. x = 1) bottom_row) = nat n
          \<and> (\<forall>i j. i < length m \<and> j < length m \<and> top_row ! i = 1 \<and> top_row ! j \<noteq> 1
                 \<and> \<not> isna (m ! j) \<longrightarrow> asc_key (m ! j) \<le> asc_key (m ! i))
          \<and> (\<forall>i j. i < length m \<and> j < length m \<and> bottom_row ! i = 1 \<and> bottom_row ! j \<noteq> 1
                 \<and> \<not> isna (m ! j) \<longrightarrow> asc_key (m ! i) \<le> asc_key (m ! j))
          \<and> (\<forall>i. i < length m \<and> (top_row ! i = 1 \<or> bottom_row ! i = 1) \<longrightarrow> \<not> isna (m ! i))
          \<and> (n \<le> 0 \<longrightarrow> top_row = replicate (length m) 0 \<and> bottom_row = replicate (length m) 0
                \<and> (\<forall>P \<in> set (leg_frames (positions g)). P ! t = replicate (length m) (Val 0)))"
    by (elim exE conjE)
  from ws ws11 have w: "ws = 11" by simp
  have p1: "1 < length ?F \<and> [Val 3, Val 1, NaN, Val 2] = sector_return_momentum ws ?F ! 1
      \<and> (1 :: int) = min (num_sectors ?self) (int (length (dropna [Val 3, Val 1, NaN, Val 2])) div 2)
      \<and> top_presence_matrix g ! 1 = top_presence_matrix g ! 1
      \<and> bottom_presence_matrix g ! 1 = bottom_presence_matrix g ! 1"
    unfolding w m1 n1 by simp
  have p0: "0 < length ?F \<and> [NaN, NaN, NaN, NaN] = sector_return_momentum ws ?F ! 0
      \<and> (0 :: int) = min (num_sectors ?self) (int (length (dropna [NaN, NaN, NaN, NaN])) div 2)
      \<and> top_presence_matrix g ! 0 = top_presence_matrix g ! 0
      \<and> bottom_presence_matrix g ! 0 = bottom_presence_matrix g ! 0"
    unfolding w m0 n0 by simp
  from per [rule_format, OF p1]
  have one: "length (filter (\<lambda>x. x = 1) (top_presence_matrix g ! 1)) = 1"
    "length (filter (\<lambda>x. x = 1) (bottom_presence_matrix g ! 1)) = 1"
    by simp_all
  from per [rule_format, OF p0]
  have zero: "\<forall>P \<in> set (leg_frames (positions g)). P ! 0 = replicate 4 (Val 0)"
    by (simp add: eval_nat_numeral)
  from g one zero show ?thesis by (intro exI conjI)
qed

subsection \<open>Cost adjustment\<close>

lemma adjust_nth:
  assumes "length returns = length turnover" "t < length returns"
  shows "adjust_returns_for_transaction_costs returns turnover cfg ! t
           = csub (returns ! t) (cmul (turnover ! t) (Val (transaction_cost_bps cfg / 10000)))"
  using assms by (simp add: adjust_returns_for_transaction_costs_def)

lemma adjust_Val:
  "adjust_returns_for_transaction_costs (map Val rs) (map Val ts) cfg
     = map2 (\<lambda>r t. Val (r - t * (transaction_cost_bps cfg / 10000))) rs ts"
proof (induction rs arbitrary: ts)
  case Nil
  then show ?case by (simp add: adjust_returns_for_transaction_costs_def)
next
  case (Cons r rs)
  then show ?case
    by (cases ts) (simp_all add: adjust_returns_for_transaction_costs_def csub_def)
qed

lemma csub_zero: "csub c (Val 0) = c"
  by (cases c) (simp_all add: csub_def)

lemma adjust_zero_cost:
  assumes "transaction_cost_bps cfg = 0" "length returns = length ts"
  shows "adjust_returns_for_transaction_costs returns (map Val ts) cfg = returns"
proof (rule nth_equalityI)
  show "length (adjust_returns_for_transaction_costs returns (map Val ts) cfg) = length returns"
    using assms(2) by (simp add: adjust_returns_for_transaction_costs_def)
next
  fix t assume "t < length (adjust_returns_for_transaction_costs returns (map Val ts) cfg)"
  then have t: "t < length returns"
    using assms(2) by (simp add: adjust_returns_for_transaction_costs_def)
  then show "adjust_returns_for_transaction_costs returns (map Val ts) cfg ! t = returns ! t"
    using assms by (simp add: adjust_nth csub_zero)
qed

lemma benchmark_adjusted:
  assumes "calculate_returns cfg f R P = Inr b"
  shows "bm_returns b = adjust_returns_for_transaction_costs
           (map (fillna 0) (strategy_returns R (benchmark_weights P))) (bm_turnover b) cfg"
  using assms
  by (auto simp: calculate_returns_def adjust_returns_for_transaction_costs_def Let_def comp_def
      split: list.splits)

lemma leg_entry_adjusted:
  "leg_entry (config s) A f pos = Inr e \<Longrightarrow> leg_adjusted s A pos e"
  by (auto simp: leg_entry_def leg_adjusted_def split: sum.splits)

lemma all_legs_adjusted:
  assumes "all_legs s A f d acc = Inr data" "data key = Some e"
  shows "acc key = Some e
     \<or> (\<exists>leg pos. (leg, pos) \<in> set d \<and> key = leg_key (name s) leg \<and> leg_adjusted s A pos e)"
  using assms
proof (induction d arbitrary: acc)
  case Nil
  then show ?case by simp
next
  case (Cons lp d)
  obtain leg pos where lp: "lp = (leg, pos)" by (cases lp)
  from Cons.prems(1) obtain entry where entry: "leg_entry (config s) A f pos = Inr entry"
    and rest: "all_legs s A f d (acc(leg_key (name s) leg \<mapsto> entry)) = Inr data"
    by (auto simp: lp split: sum.splits)
  from Cons.IH [OF rest Cons.prems(2)]
  consider "(acc(leg_key (name s) leg \<mapsto> entry)) key = Some e"
    | "\<exists>leg pos. (leg, pos) \<in> set d \<and> key = leg_key (name s) leg \<and> leg_adjusted s A pos e"
    by blast
  then show ?case
  proof cases
    case 1
    show ?thesis
    proof (cases "key = leg_key (name s) leg")
      case True
      with 1 have "entry = e" by simp
      with entry have "leg_adjusted s A pos e" by (simp add: leg_entry_adjusted)
      with True show ?thesis by (auto simp: lp)
    next
      case False
      with 1 show ?thesis by simp
    qed
  next
    case 2
    then show ?thesis by auto
  qed
qed

lemma strategy_legs_adjusted:
  assumes "calculate_strategy_returns s sig = Inr data" "data key = Some e"
  shows "\<exists>leg pos. key = leg_key (name s) leg \<and> pos \<in> set (leg_frames (sig_positions sig))
            \<and> leg_adjusted s (sig_asset_returns sig) pos e"
proof (cases "sig_positions sig")
  case (Single pos)
  with assms show ?thesis
    by (auto simp: calculate_strategy_returns_def leg_frames_def
        split: if_splits sum.splits option.splits dest: leg_entry_adjusted)
next
  case (PerLeg d)
  with assms have "all_legs s (sig_asset_returns sig) (sig_trading_frequency sig) d Map.empty = Inr data"
    by (auto simp: calculate_strategy_returns_def split: if_splits)
  from all_legs_adjusted [OF this assms(2)] show ?thesis
    by (force simp: PerLeg leg_frames_def)
qed


text \<open>
  Claim C3.  At every period the cost-adjusted return is
  \<open>returns - turnover \<times> (cost_bps / 10000)\<close>; on finite values this is the exact
  rational value; with \<open>cost_bps = 0\<close> and a finite turnover the adjusted series is the
  raw series.  The benchmark's stored returns are this function of its (zero-filled)
  portfolio returns and its turnover, and every entry stored for a strategy leg is this
  function of the leg's valuation and the leg's turnover.
\<close>

theorem cost_adjusted_return:
  "(\<forall>t. length returns = length turnover \<and> t < length returns \<longrightarrow>
        adjust_returns_for_transaction_costs returns turnover cfg ! t
          = csub (returns ! t) (cmul (turnover ! t) (Val (transaction_cost_bps cfg / 10000))))
   \<and> adjust_returns_for_transaction_costs (map Val rs) (map Val ts) cfg
        = map2 (\<lambda>r t. Val (r - t * (transaction_cost_bps cfg / 10000))) rs ts
   \<and> (transaction_cost_bps cfg = 0 \<and> length returns = length ts \<longrightarrow>
        adjust_returns_for_transaction_costs returns (map Val ts) cfg = returns)
   \<and> (\<forall>b. calculate_returns cfg f R P = Inr b \<longrightarrow>
        bm_returns b = adjust_returns_for_transaction_costs
           (map (fillna 0) (strategy_returns R (benchmark_weights P))) (bm_turnover b) cfg)
   \<and> (\<forall>data key e. calculate_strategy_returns s sig = Inr data \<and> data key = Some e \<longrightarrow>
        (\<exists>leg pos. key = leg_key (name s) leg \<and> pos \<in> set (leg_frames (sig_positions sig))
           \<and> calculate_turnover pos = Inr (entry_turnover e)
           \<and> entry_returns e = adjust_returns_for_transaction_costs
                (strategy_returns (sig_asset_returns sig) pos) (entry_turnover e) (config s)))"
  using adjust_nth [of returns turnover _ cfg] adjust_Val [of rs ts cfg]
    adjust_zero_cost [of cfg returns ts] benchmark_adjusted [of cfg f R P]
    strategy_legs_adjusted [of s sig, unfolded leg_adjusted_def]
  by (intro conjI allI impI) blast+


theorem cost_adjusted_return_witness:
  "adjust_returns_for_transaction_costs [Val (1 / 100), Val (1 / 50)] [Val 1, Val 2]
       \<lparr> transaction_cost_bps = 10 \<rparr> ! 1 = Val (9 / 500)
   \<and> adjust_returns_for_transaction_costs [Val (1 / 100), NaN] [Val 1, Val 2]
       \<lparr> transaction_cost_bps = 0 \<rparr> = [Val (1 / 100), NaN]
   \<and> (\<exists>b. calculate_returns \<lparr> transaction_cost_bps = 10 \<rparr> ''m''
             [[Val (1 / 10), Val (3 / 10)]] [[Val 1, Val 1]] = Inr b
          \<and> bm_turnover b = [Val 1] \<and> bm_returns b = [Val (199 / 1000)])
   \<and> (\<exists>data e.
          calculate_strategy_returns
            \<lparr> name = ''N'', config = \<lparr> transaction_cost_bps = 10 \<rparr>,
              parameters = \<lparr> num_sectors = 1, trading_frequency = ''M'', start_date = 0,
                 end_date = None, invert_long = False, invert_short = False, legs = ''L'' \<rparr>,
              run_signals = Inl IndexError \<rparr>
            \<lparr> sig_asset_returns = [[Val (1 / 10), Val (3 / 10)]], sig_trading_frequency = ''M'',
              sig_positions = Single [[Val 1, Val 0]] \<rparr> = Inr data
          \<and> data ''N - Long'' = Some e \<and> entry_turnover e = [Val 1]
          \<and> entry_returns e = [Val (99 / 1000)])"
proof -
  let ?s = "\<lparr> name = ''N'', config = \<lparr> transaction_cost_bps = 10 \<rparr>,
              parameters = \<lparr> num_sectors = 1, trading_frequency = ''M'', start_date = 0,
                 end_date = None, invert_long = False, invert_short = False, legs = ''L'' \<rparr>,
              run_signals = Inl IndexError \<rparr>"
  let ?sig = "\<lparr> sig_asset_returns = [[Val (1 / 10), Val (3 / 10)]], sig_trading_frequency = ''M'',
              sig_positions = Single [[Val 1, Val 0]] \<rparr>"
  let ?e = "\<lparr> entry_returns = [Val (99 / 1000)], entry_turnover = [Val 1],
              entry_trading_frequency = ''M'' \<rparr>"
  have run2: "calculate_strategy_returns ?s ?sig = Inr (Map.empty(''N - Long'' \<mapsto> ?e))"
    by (simp add: calculate_strategy_returns_def leg_entry_def calculate_turnover_def
        adjust_returns_for_transaction_costs_def strategy_returns_def leg_names_def leg_key_def
        sum_skipna_def isna_def csub_def)
  note th4 = cost_adjusted_return [where s = ?s and sig = ?sig, THEN conjunct2, THEN conjunct2,
      THEN conjunct2, THEN conjunct2, rule_format, of "Map.empty(''N - Long'' \<mapsto> ?e)"
      "''N - Long''" ?e]
  have c4: "entry_turnover ?e = [Val 1] \<and> entry_returns ?e = [Val (99 / 1000)]"
    using th4 run2 by simp
  let ?cfg = "\<lparr> transaction_cost_bps = 10 \<rparr>"
  let ?nocost = "\<lparr> transaction_cost_bps = 0 \<rparr>"
  let ?R = "[[Val (1 / 10), Val (3 / 10)]]"
  let ?P = "[[Val 1, Val 1]]"
  let ?b = "\<lparr> bm_returns = [Val (199 / 1000)], bm_turnover = [Val 1],
             bm_trading_frequency = ''M'' \<rparr>"
  note th1 = cost_adjusted_return [where returns = "[Val (1 / 100), Val (1 / 50)]"
      and turnover = "[Val 1, Val 2]" and cfg = ?cfg, THEN conjunct1, rule_format, of 1]
  have c1: "adjust_returns_for_transaction_costs [Val (1 / 100), Val (1 / 50)] [Val 1, Val 2]
       ?cfg ! 1 = Val (9 / 500)"
    using th1 by (simp add: csub_def)
  note th2 = cost_adjusted_return [where returns = "[Val (1 / 100), NaN]"
      and ts = "[1, 2]" and cfg = ?nocost, THEN conjunct2, THEN conjunct2, THEN conjunct1]
  have c2: "adjust_returns_for_transaction_costs [Val (1 / 100), NaN] [Val 1, Val 2] ?nocost
       = [Val (1 / 100), NaN]"
    using th2 by simp
  have up: "upper ''m'' = ''M''"
    by code_simp
  have run: "calculate_returns ?cfg ''m'' ?R ?P = Inr ?b"
    by (simp add: calculate_returns_def benchmark_weights_def strategy_returns_def
        sum_skipna_def isna_def fillna_def csub_def up)
  note th3 = cost_adjusted_return [where cfg = ?cfg and f = "''m''" and R = ?R and P = ?P,
      THEN conjunct2, THEN conjunct2, THEN conjunct2, THEN conjunct1, rule_format, OF run]
  have c3: "bm_returns ?b = [Val (199 / 1000)]"
    using th3 by simp
  have c4': "\<exists>data e. calculate_strategy_returns ?s ?sig = Inr data
          \<and> data ''N - Long'' = Some e \<and> entry_turnover e = [Val 1]
          \<and> entry_returns e = [Val (99 / 1000)]"
    using run2 c4 by (intro exI [of _ "Map.empty(''N - Long'' \<mapsto> ?e)"] exI [of _ ?e]) simp
  from c1 c2 run c3 c4' show ?thesis by simp
qed

subsection \<open>The reserved key of the benchmark\<close>

lemma leg_key_not_Benchmark: "leg_key n l \<noteq> ''Benchmark''"
proof
  assume "leg_key n l = ''Benchmark''"
  then have "set (leg_key n l) = set ''Benchmark''" by simp
  moreover have "CHR '' '' \<in> set (leg_key n l)" by (simp add: leg_key_def)
  ultimately show False by simp
qed

lemma Benchmark_no_separator: "''Benchmark'' \<noteq> pre @ '' - '' @ post"
  using leg_key_not_Benchmark [of pre post] by (simp add: leg_key_def)

lemma strategy_keys:
  assumes "calculate_strategy_returns s sig = Inr data" "key \<in> dom data"
  shows "\<exists>leg. key = name s @ '' - '' @ leg"
proof -
  from assms(2) obtain e where "data key = Some e" by auto
  from strategy_legs_adjusted [OF assms(1) this] show ?thesis
    by (auto simp: leg_key_def)
qed

lemma run_strategies_keeps_Benchmark:
  "run_strategies ss rd = (err, d) \<Longrightarrow> rd ''Benchmark'' = Some b \<Longrightarrow> d ''Benchmark'' = Some b"
proof (induction ss arbitrary: rd)
  case Nil
  then show ?case by simp
next
  case (Cons s ss)
  show ?case
  proof (cases "run_signals s")
    case (Inl e)
    with Cons.prems show ?thesis by simp
  next
    case (Inr sig)
    show ?thesis
    proof (cases "calculate_strategy_returns s sig")
      case (Inl e)
      with Inr Cons.prems show ?thesis by simp
    next
      case data: (Inr data)
      have "''Benchmark'' \<notin> dom data"
        using strategy_keys [OF data, of "''Benchmark''"] Benchmark_no_separator by blast
      then have "(rd ++ data) ''Benchmark'' = Some b"
        using Cons.prems(2) by (simp add: map_add_dom_app_simps)
      moreover have "run_strategies ss (rd ++ data) = (err, d)"
        using Cons.prems(1) Inr data by simp
      ultimately show ?thesis by (rule Cons.IH [rotated])
    qed
  qed
qed

text \<open>
  Claim C10.  Whatever \<open>run_backtest\<close> returns (in particular when it completes), the
  dictionary holds the benchmark's entry under the key \<open>Benchmark\<close>: every key written
  for a strategy leg is \<open>name - leg\<close>, so it contains the separator \<open>" - "\<close>, which
  \<open>Benchmark\<close> does not, and no insertion for a leg replaces the benchmark's entry.
\<close>

theorem benchmark_entry_kept:
  "(\<forall>err d. run_backtest strategies bm returns_dict = (err, d) \<longrightarrow>
       d ''Benchmark'' = Some \<lparr> entry_returns = bm_returns bm, entry_turnover = bm_turnover bm,
                                entry_trading_frequency = bm_trading_frequency bm \<rparr>)
   \<and> (\<forall>s sig data key. calculate_strategy_returns s sig = Inr data \<and> key \<in> dom data \<longrightarrow>
         (\<exists>leg. key = name s @ '' - '' @ leg) \<and> key \<noteq> ''Benchmark'')
   \<and> (\<forall>pre post. ''Benchmark'' \<noteq> pre @ '' - '' @ post)"
proof (intro conjI allI impI)
  fix err d
  assume "run_backtest strategies bm returns_dict = (err, d)"
  then show "d ''Benchmark'' = Some \<lparr> entry_returns = bm_returns bm,
      entry_turnover = bm_turnover bm, entry_trading_frequency = bm_trading_frequency bm \<rparr>"
    unfolding run_backtest_def by (rule run_strategies_keeps_Benchmark) simp
next
  fix s sig data key
  assume a: "calculate_strategy_returns s sig = Inr data \<and> key \<in> dom data"
  then show "\<exists>leg. key = name s @ '' - '' @ leg" using strategy_keys by blast
  with Benchmark_no_separator show "key \<noteq> ''Benchmark''" by blast
next
  fix pre post
  show "''Benchmark'' \<noteq> pre @ '' - '' @ post" by (rule Benchmark_no_separator)
qed


theorem benchmark_entry_kept_witness:
  "\<exists>d. run_backtest
          [\<lparr> name = ''N'', config = \<lparr> transaction_cost_bps = 10 \<rparr>,
             parameters = \<lparr> num_sectors = 1, trading_frequency = ''M'', start_date = 0,
                end_date = None, invert_long = False, invert_short = False, legs = ''L'' \<rparr>,
             run_signals = Inr \<lparr> sig_asset_returns = [[Val (1 / 10), Val (3 / 10)]],
                sig_trading_frequency = ''M'', sig_positions = Single [[Val 1, Val 0]] \<rparr> \<rparr>]
          \<lparr> bm_returns = [Val (1 / 5)], bm_turnover = [Val 1], bm_trading_frequency = ''M'' \<rparr>
          Map.empty = (None, d)
     \<and> d ''Benchmark'' = Some \<lparr> entry_returns = [Val (1 / 5)], entry_turnover = [Val 1],
                                entry_trading_frequency = ''M'' \<rparr>
     \<and> d ''N - Long'' = Some \<lparr> entry_returns = [Val (99 / 1000)], entry_turnover = [Val 1],
                                entry_trading_frequency = ''M'' \<rparr>"
proof -
  let ?sig = "\<lparr> sig_asset_returns = [[Val (1 / 10), Val (3 / 10)]],
                sig_trading_frequency = ''M'', sig_positions = Single [[Val 1, Val 0]] \<rparr>"
  let ?s = "\<lparr> name = ''N'', config = \<lparr> transaction_cost_bps = 10 \<rparr>,
             parameters = \<lparr> num_sectors = 1, trading_frequency = ''M'', start_date = 0,
                end_date = None, invert_long = False, invert_short = False, legs = ''L'' \<rparr>,
             run_signals = Inr ?sig \<rparr>"
  let ?bm = "\<lparr> bm_returns = [Val (1 / 5)], bm_turnover = [Val 1], bm_trading_frequency = ''M'' \<rparr>"
  let ?be = "\<lparr> entry_returns = [Val (1 / 5)], entry_turnover = [Val 1],
                                entry_trading_frequency = ''M'' \<rparr>"
  let ?e = "\<lparr> entry_returns = [Val (99 / 1000)], entry_turnover = [Val 1],
              entry_trading_frequency = ''M'' \<rparr>"
  let ?d = "[''Benchmark'' \<mapsto> ?be] ++ [''N - Long'' \<mapsto> ?e]"
  have legs: "calculate_strategy_returns ?s ?sig = Inr (Map.empty(''N - Long'' \<mapsto> ?e))"
    by (simp add: calculate_strategy_returns_def leg_entry_def calculate_turnover_def
        adjust_returns_for_transaction_costs_def strategy_returns_def leg_names_def leg_key_def
        sum_skipna_def isna_def csub_def)
  have run: "run_backtest [?s] ?bm Map.empty = (None, ?d)"
    by (simp add: run_backtest_def legs)
  from benchmark_entry_kept [where strategies = "[?s]" and bm = ?bm and returns_dict = Map.empty,
      THEN conjunct1, rule_format, OF run]
  have bench: "?d ''Benchmark'' = Some ?be" by simp
  have leg: "?d ''N - Long'' = Some ?e" by simp
  from run bench leg show ?thesis by (intro exI [of _ ?d] conjI)
qed

subsection \<open>The frequency enumeration\<close>

lemma freq_map_cases:
  "map_of freq_map f = Some ppy \<Longrightarrow>
     (f = ''D'' \<and> ppy = 252) \<or> (f = ''W'' \<and> ppy = 52) \<or> (f = ''2W'' \<and> ppy = 26) \<or> (f = ''M'' \<and> ppy = 12)"
  by (auto simp: freq_map_def split: if_splits)

lemma freq_map_None:
  "map_of freq_map f = None \<longleftrightarrow> f \<notin> {''D'', ''W'', ''2W'', ''M''}"
  by (auto simp: freq_map_def)

lemma freq_to_periods_None:
  "map_of freq_to_periods f = None \<longleftrightarrow> f \<notin> {''D'', ''W'', ''2W'', ''M''}"
  by (auto simp: freq_to_periods_def)

lemma determine_window_size_invalid:
  "determine_window_size self = Inl (ValueError ''Invalid trading frequency.'')
     \<longleftrightarrow> trading_frequency self \<notin> {''D'', ''W'', ''2W'', ''M''}"
proof (cases "map_of freq_to_periods (trading_frequency self)")
  case None
  then show ?thesis
    using freq_to_periods_None [of "trading_frequency self"]
    by (simp add: determine_window_size_def)
next
  case (Some ppy)
  with determine_window_size_valid [OF Some] freq_to_periods_None [of "trading_frequency self"]
  show ?thesis by simp
qed

lemma calculate_statistics_invalid:
  "calculate_statistics lib returns turnover f presence
       = Inl (ValueError ''Invalid trading frequency.'')
     \<longleftrightarrow> upper f \<notin> {''D'', ''W'', ''2W'', ''M''}"
proof (cases "map_of freq_map (upper f)")
  case None
  then show ?thesis
    using freq_map_None [of "upper f"]
    by (simp add: calculate_statistics_def split: prod.splits)
next
  case (Some ppy)
  from freq_map_cases [OF Some] have "ppy \<noteq> 0" by auto
  with Some freq_map_None [of "upper f"] show ?thesis
    by (simp add: calculate_statistics_def split: prod.splits)
qed

lemma calculate_statistics_valid:
  assumes "map_of freq_map (upper f) = Some ppy"
    and "restrict_active returns turnover presence = (r, t)"
  shows "calculate_statistics lib returns turnover f presence =
     Inr [(''Annualized Return (%)'', cmul (annualized_return lib ppy (map snd r)) (Val 100)),
          (''Annualized Sharpe Ratio'', sharpe_ratio lib ppy (map snd r)),
          (''Skewness'', scipy_skew lib (map snd r)),
          (''Max Drawdown (%)'', cmul (max_drawdown (map snd r)) (Val 100)),
          (''Average Turnover (%)'',
             (case t of Some t \<Rightarrow> cmul (mean_skipna t) (Val 100) | None \<Rightarrow> NaN))]"
proof -
  from freq_map_cases [OF assms(1)] have "ppy \<noteq> 0" by auto
  with assms show ?thesis by (simp add: calculate_statistics_def)
qed


text \<open>
  Claim C7.  The momentum window and the statistics both take \<open>periods_per_year\<close> from
  the table Daily (\<open>D\<close>) = 252, Weekly (\<open>W\<close>) = 52, BiWeekly (\<open>2W\<close>) = 26, Monthly
  (\<open>M\<close>) = 12.  The window computation reads the stored frequency (upper-cased by
  \<open>set_parameters\<close>), the statistics upper-case their argument.  A frequency outside the
  table makes either fail with \<open>ValueError("Invalid trading frequency.")\<close>; a frequency
  in the table gives a window size, respectively a statistics record annualised with the
  table's value.
\<close>

theorem periods_per_year_lookup:
  "freq_to_periods = [(''D'', 252), (''W'', 52), (''2W'', 26), (''M'', 12)]
   \<and> freq_map = [(''D'', 252), (''W'', 52), (''2W'', 26), (''M'', 12)]
   \<and> (trading_frequency self \<notin> {''D'', ''W'', ''2W'', ''M''} \<longrightarrow>
        determine_window_size self = Inl (ValueError ''Invalid trading frequency.''))
   \<and> (\<forall>ppy. map_of freq_to_periods (trading_frequency self) = Some ppy \<longrightarrow>
        determine_window_size self = Inr \<lfloor>(11 / 12 :: rat) * of_int ppy\<rfloor>)
   \<and> (upper f \<notin> {''D'', ''W'', ''2W'', ''M''} \<longrightarrow>
        calculate_statistics lib returns turnover f presence
          = Inl (ValueError ''Invalid trading frequency.''))
   \<and> (\<forall>ppy. map_of freq_map (upper f) = Some ppy \<longrightarrow>
        (\<exists>stats. calculate_statistics lib returns turnover f presence = Inr stats
           \<and> map_of stats ''Annualized Return (%)''
               = Some (cmul (annualized_return lib ppy
                               (map snd (fst (restrict_active returns turnover presence))))
                            (Val 100))))
   \<and> (\<forall>p. set_parameters kw = Inr p \<longrightarrow>
        trading_frequency p
          = upper (case kw_trading_frequency kw of None \<Rightarrow> ''M'' | Some f \<Rightarrow> f))"
proof (intro conjI allI impI)
  show "freq_to_periods = [(''D'', 252), (''W'', 52), (''2W'', 26), (''M'', 12)]"
    by (simp add: freq_to_periods_def)
  show "freq_map = [(''D'', 252), (''W'', 52), (''2W'', 26), (''M'', 12)]"
    by (simp add: freq_map_def)
next
  assume "trading_frequency self \<notin> {''D'', ''W'', ''2W'', ''M''}"
  then show "determine_window_size self = Inl (ValueError ''Invalid trading frequency.'')"
    by (simp add: determine_window_size_invalid)
next
  fix ppy assume "map_of freq_to_periods (trading_frequency self) = Some ppy"
  then show "determine_window_size self = Inr \<lfloor>(11 / 12 :: rat) * of_int ppy\<rfloor>"
    by (rule determine_window_size_valid)
next
  assume "upper f \<notin> {''D'', ''W'', ''2W'', ''M''}"
  then show "calculate_statistics lib returns turnover f presence
          = Inl (ValueError ''Invalid trading frequency.'')"
    by (simp add: calculate_statistics_invalid)
next
  fix ppy assume ppy: "map_of freq_map (upper f) = Some ppy"
  obtain r t where rt: "restrict_active returns turnover presence = (r, t)"
    by (cases "restrict_active returns turnover presence")
  show "\<exists>stats. calculate_statistics lib returns turnover f presence = Inr stats
           \<and> map_of stats ''Annualized Return (%)''
               = Some (cmul (annualized_return lib ppy
                               (map snd (fst (restrict_active returns turnover presence))))
                            (Val 100))"
    unfolding calculate_statistics_valid [OF ppy rt] by (simp add: rt)
next
  fix p assume "set_parameters kw = Inr p"
  then show "trading_frequency p
      = upper (case kw_trading_frequency kw of None \<Rightarrow> ''M'' | Some f \<Rightarrow> f)"
    by (auto simp: set_parameters_def Let_def split: if_splits)
qed

theorem periods_per_year_lookup_witness:
  "determine_window_size \<lparr> num_sectors = 5, trading_frequency = ''Q'', start_date = 0,
       end_date = None, invert_long = False, invert_short = False, legs = ''ALL'' \<rparr>
     = Inl (ValueError ''Invalid trading frequency.'')
   \<and> determine_window_size \<lparr> num_sectors = 5, trading_frequency = ''D'', start_date = 0,
       end_date = None, invert_long = False, invert_short = False, legs = ''ALL'' \<rparr> = Inr 231
   \<and> calculate_statistics 
        \<lparr> np_power = (\<lambda>x y. NaN), np_sqrt = (\<lambda>x. NaN),
            series_std = (\<lambda>xs. NaN), scipy_skew = (\<lambda>xs. NaN) \<rparr>
        [(0, Val 1)] None ''Q'' None
        = Inl (ValueError ''Invalid trading frequency.'')
   \<and> (\<exists>stats. calculate_statistics 
        \<lparr> np_power = (\<lambda>x y. NaN), np_sqrt = (\<lambda>x. NaN),
            series_std = (\<lambda>xs. NaN), scipy_skew = (\<lambda>xs. NaN) \<rparr>
        [(0, Val 0)] None ''2w'' None = Inr stats
          \<and> map_of stats ''Annualized Return (%)''
               = Some (cmul (annualized_return 
        \<lparr> np_power = (\<lambda>x y. NaN), np_sqrt = (\<lambda>x. NaN),
            series_std = (\<lambda>xs. NaN), scipy_skew = (\<lambda>xs. NaN) \<rparr>
        26 [Val 0]) (Val 100)))"
proof -
  let ?lib = "\<lparr> np_power = (\<lambda>x y. NaN), np_sqrt = (\<lambda>x. NaN),
            series_std = (\<lambda>xs. NaN), scipy_skew = (\<lambda>xs. NaN) \<rparr>"
  let ?q = "\<lparr> num_sectors = 5, trading_frequency = ''Q'', start_date = 0,
       end_date = None, invert_long = False, invert_short = False, legs = ''ALL'' \<rparr>"
  let ?d = "\<lparr> num_sectors = 5, trading_frequency = ''D'', start_date = 0,
       end_date = None, invert_long = False, invert_short = False, legs = ''ALL'' \<rparr>"
  have upQ: "upper ''Q'' = ''Q''" and up2w: "upper ''2w'' = ''2W''"
    by code_simp+
  have c1: "determine_window_size ?q = Inl (ValueError ''Invalid trading frequency.'')"
    using periods_per_year_lookup [where self = ?q] by simp
  have "map_of freq_to_periods (trading_frequency ?d) = Some 252"
    by (simp add: freq_to_periods_def)
  with periods_per_year_lookup [where self = ?d]
  have "determine_window_size ?d = Inr \<lfloor>(11 / 12 :: rat) * of_int 252\<rfloor>" by blast
  then have c2: "determine_window_size ?d = Inr 231" by simp
  have c3: "calculate_statistics ?lib [(0, Val 1)] None ''Q'' None
        = Inl (ValueError ''Invalid trading frequency.'')"
    using periods_per_year_lookup [where f = "''Q''" and lib = ?lib and returns = "[(0, Val 1)]"
        and turnover = None and presence = None]
    by (simp add: upQ)
  have "map_of freq_map (upper ''2w'') = Some 26"
    by (simp add: freq_map_def up2w)
  with periods_per_year_lookup [where f = "''2w''" and lib = ?lib and returns = "[(0, Val 0)]"
        and turnover = None and presence = None]
  have c4: "\<exists>stats. calculate_statistics ?lib [(0, Val 0)] None ''2w'' None = Inr stats
          \<and> map_of stats ''Annualized Return (%)''
               = Some (cmul (annualized_return ?lib 26 [Val 0]) (Val 100))"
    by (simp add: restrict_active_def)
  from c1 c2 c3 c4 show ?thesis by (intro conjI)
qed


subsection \<open>The statistics record\<close>

lemma restrict_active_None_turnover:
  "restrict_active returns None presence = (r, t) \<Longrightarrow> t = None"
  by (auto simp: restrict_active_def Let_def split: option.splits)

text \<open>
  Claim C9.  For every input with a recognised frequency \<open>calculate_statistics\<close> returns
  a record with the five keys; the entries under \<open>Annualized Return (%)\<close>,
  \<open>Max Drawdown (%)\<close> and \<open>Average Turnover (%)\<close> are the annualised return, the maximum
  drawdown and the mean turnover of the (restricted) series times 100, the Sharpe ratio
  and the skewness are stored unscaled, and without a turnover series the average-turnover
  entry is \<open>NaN\<close>.
\<close>

theorem statistics_scaling:
  assumes "map_of freq_map (upper f) = Some ppy"
  shows "\<exists>stats r t. restrict_active returns turnover presence = (r, t)
     \<and> calculate_statistics lib returns turnover f presence = Inr stats
     \<and> map fst stats = [''Annualized Return (%)'', ''Annualized Sharpe Ratio'', ''Skewness'',
                         ''Max Drawdown (%)'', ''Average Turnover (%)'']
     \<and> map_of stats ''Annualized Return (%)''
          = Some (cmul (annualized_return lib ppy (map snd r)) (Val 100))
     \<and> map_of stats ''Max Drawdown (%)'' = Some (cmul (max_drawdown (map snd r)) (Val 100))
     \<and> map_of stats ''Average Turnover (%)''
          = Some (case t of Some tv \<Rightarrow> cmul (mean_skipna tv) (Val 100) | None \<Rightarrow> NaN)
     \<and> map_of stats ''Annualized Sharpe Ratio'' = Some (sharpe_ratio lib ppy (map snd r))
     \<and> map_of stats ''Skewness'' = Some (scipy_skew lib (map snd r))
     \<and> (turnover = None \<longrightarrow> map_of stats ''Average Turnover (%)'' = Some NaN)"
proof -
  obtain r t where rt: "restrict_active returns turnover presence = (r, t)"
    by (cases "restrict_active returns turnover presence")
  have none: "turnover = None \<longrightarrow> t = None"
    using rt restrict_active_None_turnover by blast
  show ?thesis
    unfolding calculate_statistics_valid [OF assms rt]
    using rt none by auto
qed


theorem statistics_scaling_witness:
  "(\<exists>stats. calculate_statistics
        \<lparr> np_power = (\<lambda>x y. x), np_sqrt = (\<lambda>x. x),
          series_std = (\<lambda>xs. Val 0), scipy_skew = (\<lambda>xs. NaN) \<rparr>
        [(0, Val 0), (1, Val 0)] (Some [Val (1 / 2), Val (3 / 2)]) ''m'' None = Inr stats
      \<and> map_of stats ''Annualized Return (%)'' = Some (Val 0)
      \<and> map_of stats ''Max Drawdown (%)'' = Some (Val 0)
      \<and> map_of stats ''Average Turnover (%)'' = Some (Val 100)
      \<and> map_of stats ''Annualized Sharpe Ratio'' = Some NaN)
   \<and> (\<exists>stats. calculate_statistics
        \<lparr> np_power = (\<lambda>x y. x), np_sqrt = (\<lambda>x. x),
          series_std = (\<lambda>xs. Val 0), scipy_skew = (\<lambda>xs. NaN) \<rparr>
        [(0, Val 0), (1, Val 0)] None ''m'' None = Inr stats
      \<and> map_of stats ''Average Turnover (%)'' = Some NaN)"
proof -
  let ?lib = "\<lparr> np_power = (\<lambda>x y. x), np_sqrt = (\<lambda>x. x),
          series_std = (\<lambda>xs. Val 0), scipy_skew = (\<lambda>xs. NaN) \<rparr>"
  let ?r = "[(0, Val 0), (1, Val 0)]"
  let ?t = "[Val (1 / 2), Val (3 / 2)]"
  have up: "upper ''m'' = ''M''" by code_simp
  have valid: "map_of freq_map (upper ''m'') = Some 12"
    by (simp add: freq_map_def up)
  have ar: "annualized_return ?lib 12 [Val 0, Val 0] = Val 0"
    by (simp add: annualized_return_def prod_skipna_def isna_def csub_def)
  have md: "max_drawdown [Val 0, Val 0] = Val 0"
    by code_simp
  have at: "mean_skipna ?t = Val 1"
    by (simp add: mean_skipna_def isna_def)
  have sr: "sharpe_ratio ?lib 12 [Val 0, Val 0] = NaN"
    by (simp add: sharpe_ratio_def annualized_std_def)
  from statistics_scaling [OF valid, of ?r "Some ?t" None ?lib]
  have c1: "\<exists>stats. calculate_statistics ?lib ?r (Some ?t) ''m'' None = Inr stats
      \<and> map_of stats ''Annualized Return (%)'' = Some (Val 0)
      \<and> map_of stats ''Max Drawdown (%)'' = Some (Val 0)
      \<and> map_of stats ''Average Turnover (%)'' = Some (Val 100)
      \<and> map_of stats ''Annualized Sharpe Ratio'' = Some NaN"
    by (auto simp: restrict_active_def ar md at sr)
  from statistics_scaling [OF valid, of ?r None None ?lib]
  have c2: "\<exists>stats. calculate_statistics ?lib ?r None ''m'' None = Inr stats
      \<and> map_of stats ''Average Turnover (%)'' = Some NaN"
    by auto
  from c1 c2 show ?thesis by (rule conjI)
qed


subsection \<open>The activity mask\<close>

lemma active_periods_pointwise: "\<exists>act. \<forall>index. active_periods p index = map act index"
proof (cases p)
  case (PFrame n rows)
  then show ?thesis
    by (intro exI [of _ "\<lambda>l. cgt0 (sum_skipna (case rows l of Some row \<Rightarrow> row
                                              | None \<Rightarrow> replicate n NaN))"])
       (simp add: active_periods_def reindex_frame_def comp_def)
next
  case (PSeries vals)
  then show ?thesis
    by (intro exI [of _ "\<lambda>l. cgt0 (case vals l of Some v \<Rightarrow> v | None \<Rightarrow> NaN)"])
       (simp add: active_periods_def reindex_series_def comp_def)
qed

lemma loc_mask_labels:
  "loc_mask (map (act \<circ> fst) r) r = filter (\<lambda>x. act (fst x)) r"
  by (induction r) (simp_all add: loc_mask_def)

lemma loc_mask_all_True:
  "(\<forall>b \<in> set keep. b) \<Longrightarrow> length xs \<le> length keep \<Longrightarrow> loc_mask keep xs = xs"
proof (induction keep arbitrary: xs)
  case Nil
  then show ?case by (simp add: loc_mask_def)
next
  case (Cons b keep)
  show ?case
  proof (cases xs)
    case Nil
    then show ?thesis by (simp add: loc_mask_def)
  next
    case xs: (Cons x xs')
    from Cons.prems have "\<forall>b \<in> set keep. b" "length xs' \<le> length keep" b
      by (auto simp: xs)
    with Cons.IH [of xs'] show ?thesis by (simp add: loc_mask_def xs)
  qed
qed

lemma length_loc_mask_le:
  "length (loc_mask keep xs) \<le> length (filter (\<lambda>b. b) keep)"
proof (induction keep arbitrary: xs)
  case Nil
  then show ?case by (simp add: loc_mask_def)
next
  case (Cons b keep)
  show ?case
  proof (cases xs)
    case Nil
    then show ?thesis by (simp add: loc_mask_def)
  next
    case (Cons x xs')
    with Cons.IH [of xs'] show ?thesis by (simp add: loc_mask_def)
  qed
qed

lemma restrict_active_idem:
  assumes "restrict_active returns turnover presence = (r, t)"
  shows "restrict_active r t presence = (r, t)"
proof (cases presence)
  case None
  with assms show ?thesis by (simp add: restrict_active_def)
next
  case (Some p)
  from active_periods_pointwise obtain act
    where act: "\<And>index. active_periods p index = map act index" by blast
  let ?keep = "map (act \<circ> fst) returns"
  from assms have r: "r = filter (\<lambda>x. act (fst x)) returns"
    and t: "t = map_option (loc_mask ?keep) turnover"
    by (simp_all add: restrict_active_def Some act loc_mask_labels Let_def)
  let ?keep2 = "map (act \<circ> fst) r"
  have all: "\<forall>b \<in> set ?keep2. b" by (auto simp: r)
  have r2: "loc_mask ?keep2 r = r"
    by (rule loc_mask_all_True [OF all]) simp
  have len: "length (filter (\<lambda>b. b) ?keep) = length r"
    by (simp add: r filter_map comp_def)
  have t2: "map_option (loc_mask ?keep2) t = t"
  proof (cases turnover)
    case None
    then show ?thesis by (simp add: t)
  next
    case (Some tv)
    have "length (loc_mask ?keep tv) \<le> length ?keep2"
      using length_loc_mask_le [of ?keep tv] len by simp
    from loc_mask_all_True [OF all this] show ?thesis by (simp add: t Some)
  qed
  show ?thesis
    by (simp add: restrict_active_def Some act Let_def r2 t2)
qed

lemma calculate_statistics_restricted:
  assumes "restrict_active returns turnover presence = (r, t)"
    and "restrict_active r' t' presence' = (r, t)"
  shows "calculate_statistics lib r' t' f presence'
           = calculate_statistics lib returns turnover f presence"
  using assms by (simp add: calculate_statistics_def)

text \<open>
  Claim C8.  Restricting returns and turnover to the active periods is idempotent: the
  restricted series are unchanged by the same mask, so the statistics of the already
  restricted series, computed with the mask applied again (or with no mask), are the
  statistics computed from the original series with the mask.
\<close>

theorem activity_mask_idempotent:
  assumes "restrict_active returns turnover presence = (r, t)"
  shows "restrict_active r t presence = (r, t)
     \<and> calculate_statistics lib r t f presence
          = calculate_statistics lib returns turnover f presence
     \<and> calculate_statistics lib r t f None
          = calculate_statistics lib returns turnover f presence"
proof -
  have idem: "restrict_active r t presence = (r, t)"
    by (rule restrict_active_idem [OF assms])
  have none: "restrict_active r t None = (r, t)"
    by (simp add: restrict_active_def)
  show ?thesis
    using idem calculate_statistics_restricted [OF assms idem]
      calculate_statistics_restricted [OF assms none]
    by simp
qed


theorem activity_mask_idempotent_witness:
  "restrict_active [(1, Val (1 / 10)), (2, Val (1 / 5)), (3, Val (3 / 10))]
       (Some [Val 1, Val 2, Val 3])
       (Some (PFrame 2 [1 \<mapsto> [Val 1, Val 0], 2 \<mapsto> [Val 0, Val 0]]))
     = ([(1, Val (1 / 10))], Some [Val 1])
   \<and> restrict_active [(1, Val (1 / 10))] (Some [Val 1])
       (Some (PFrame 2 [1 \<mapsto> [Val 1, Val 0], 2 \<mapsto> [Val 0, Val 0]]))
     = ([(1, Val (1 / 10))], Some [Val 1])
   \<and> calculate_statistics
        \<lparr> np_power = (\<lambda>x y. x), np_sqrt = (\<lambda>x. x),
          series_std = (\<lambda>xs. Val 0), scipy_skew = (\<lambda>xs. NaN) \<rparr>
        [(1, Val (1 / 10))] (Some [Val 1]) ''M''
        (Some (PFrame 2 [1 \<mapsto> [Val 1, Val 0], 2 \<mapsto> [Val 0, Val 0]]))
     = calculate_statistics
        \<lparr> np_power = (\<lambda>x y. x), np_sqrt = (\<lambda>x. x),
          series_std = (\<lambda>xs. Val 0), scipy_skew = (\<lambda>xs. NaN) \<rparr>
        [(1, Val (1 / 10)), (2, Val (1 / 5)), (3, Val (3 / 10))] (Some [Val 1, Val 2, Val 3]) ''M''
        (Some (PFrame 2 [1 \<mapsto> [Val 1, Val 0], 2 \<mapsto> [Val 0, Val 0]]))"
proof -
  let ?R = "[(1, Val (1 / 10)), (2, Val (1 / 5)), (3, Val (3 / 10))]"
  let ?T = "Some [Val 1, Val 2, Val 3]"
  let ?P = "Some (PFrame 2 [1 \<mapsto> [Val 1, Val 0], 2 \<mapsto> [Val 0, Val 0]])"
  have first: "restrict_active ?R ?T ?P = ([(1, Val (1 / 10))], Some [Val 1])"
    by (simp add: restrict_active_def active_periods_def reindex_frame_def loc_mask_def
        cgt0_def sum_skipna_def isna_def)
  from activity_mask_idempotent [OF first] first show ?thesis by simp
qed

subsection \<open>The date range\<close>









end
